theory Spec2Isabelle
  imports Complex_Main "HOL-Library.Sublist" "HOL-Library.Multiset"
begin

section \<open>The data model of \<^verbatim>\<open>src/types.ts\<close>\<close>

text \<open>
  \<^verbatim>\<open>Message\<close> and \<^verbatim>\<open>MessagePart\<close> of \<^verbatim>\<open>src/types.ts\<close>. The hook also appends the
  optional leading image, a \<^verbatim>\<open>Part\<close> of the client library cast to \<^verbatim>\<open>MessagePart\<close>
  (\<^verbatim>\<open>imagePart as MessagePart\<close>); it is the constructor \<open>InlinePart\<close> (mime type, data).
  A message id is \<^verbatim>\<open>Date.now().toString()\<close> or \<^verbatim>\<open>`handoff-${Date.now()}`\<close>; the two
  shapes are the two constructors of \<open>message_id\<close>, over the clock value.
\<close>

datatype video = Video (video_id: string) (video_title: string) (channel: string) (description: string)

datatype message_part =
    TextPart (content: string)
  | ImagePart (uri: string) (alt: "string option")
  | SourcePart (items: "(string \<times> string) list")
  | YouTubePart (videos: "video list")
  | InlinePart string string

datatype speaker = User | Model

datatype message_id = TimeId nat | HandoffId nat

record message =
  msg_id :: message_id
  speaker :: speaker
  parts :: "message_part list"

section \<open>The state of the hook \<^verbatim>\<open>useZud\<close>\<close>

text \<open>
  A value thrown in JavaScript is either an \<^verbatim>\<open>Error\<close> object with its message or any other
  value with its string form; the handlers read it with
  \<^verbatim>\<open>err instanceof Error ? err.message : String(err)\<close>.
\<close>

datatype thrown = ErrorObject string | OtherValue string

fun errorMessageOf :: "thrown \<Rightarrow> string" where
  "errorMessageOf (ErrorObject m) = m"
| "errorMessageOf (OtherValue v) = v"

text \<open>An \<^verbatim>\<open>AudioContext\<close> is known to the hook through its \<^verbatim>\<open>state\<close> only.\<close>

datatype ctx_state = Running | Suspended | Closed

datatype ctx_kind = InputCtx | OutputCtx

text \<open>
  The \<^verbatim>\<open>useState\<close> values and the \<^verbatim>\<open>useRef\<close> slots of the hook, one field each, with
  the source's names. A session, a playback source and a microphone track are handles
  (natural numbers); a slot that holds \<^verbatim>\<open>null\<close> is \<open>None\<close>. \<open>aiRef\<close> holds the API key
  the client was built with. \<open>audioSourcesRef\<close> is a JavaScript \<^verbatim>\<open>Set\<close>, which iterates
  in insertion order: a list without duplicates. Times are the audio clock's seconds.
\<close>

record hook =
  status :: string
  error :: "string option"
  messages :: "message list"
  isLiveConnected :: bool
  isMicMuted :: bool
  aiRef :: "string option"
  sessionPromiseRef :: "nat option"
  inputAudioContextRef :: "ctx_state option"
  outputAudioContextRef :: "ctx_state option"
  microphoneStreamRef :: "nat list option"
  scriptProcessorRef :: "unit option"
  nextStartTimeRef :: real
  audioSourcesRef :: "nat list"
  currentInputTranscriptionRef :: string
  currentOutputTranscriptionRef :: string

definition initial :: hook where
  "initial = \<lparr> status = ''Ready'', error = None, messages = [], isLiveConnected = False,
     isMicMuted = False, aiRef = None, sessionPromiseRef = None,
     inputAudioContextRef = None, outputAudioContextRef = None,
     microphoneStreamRef = None, scriptProcessorRef = None, nextStartTimeRef = 0,
     audioSourcesRef = [], currentInputTranscriptionRef = [],
     currentOutputTranscriptionRef = [] \<rparr>"

text \<open>
  What a handler does to the world outside the hook's state, in the order it does it.
  An effect on the session (\<open>SessionClose\<close>, \<open>SendToolResponse\<close>) is queued on the session
  promise that the slot held at that moment (\<^verbatim>\<open>sessionPromiseRef.current?.then(...)\<close>).
  A handler that is an \<^verbatim>\<open>async\<close> function and throws outside every \<^verbatim>\<open>try\<close> stops there:
  what it has done so far stays done, the rest is not run, and the promise it returned
  is rejected with nobody to catch it. That is the effect \<open>UnhandledRejection\<close>, always
  the last one of the handler.
\<close>

datatype func_response = Result string | Failure string

datatype effect =
    SessionConnect nat string
  | SessionClose nat
  | SendToolResponse nat string string "func_response option"
  | SendRealtimeInput nat string
  | TrackStop nat
  | ProcessorDisconnect
  | ContextClose ctx_kind
  | SourceStart nat real
  | SourceStop nat
  | ConsoleError thrown
  | UnhandledRejection thrown

fun rejectionEffect :: "effect \<Rightarrow> bool" where
  "rejectionEffect (UnhandledRejection e) = True"
| "rejectionEffect _ = False"

definition threw :: "effect list \<Rightarrow> bool" where
  "threw fx = list_ex rejectionEffect fx"

section \<open>Teardown: \<^verbatim>\<open>stopAudioPlayback\<close> and \<^verbatim>\<open>stop\<close>\<close>

text \<open>
  The loop of \<^verbatim>\<open>stopAudioPlayback\<close>: every source the iteration visits is stopped and
  deleted from the set. The first argument is what is left to visit, the second the set.
\<close>

fun stopSources :: "nat list \<Rightarrow> nat list \<Rightarrow> nat list \<times> effect list" where
  "stopSources [] active = (active, [])"
| "stopSources (source # rest) active =
     (let (active', fx) = stopSources rest (removeAll source active)
      in (active', SourceStop source # fx))"

definition stopAudioPlayback :: "hook \<Rightarrow> hook \<times> effect list" where
  "stopAudioPlayback h =
     (if outputAudioContextRef h \<noteq> None then
        (let (active, fx) = stopSources (audioSourcesRef h) (audioSourcesRef h)
         in (h\<lparr>audioSourcesRef := active, nextStartTimeRef := 0\<rparr>, fx))
      else (h, []))"

text \<open>
  What the environment decides during \<^verbatim>\<open>stop\<close>: whether the chain
  \<^verbatim>\<open>then(session => session.close())\<close> rejects, and whether the \<^verbatim>\<open>close()\<close> of either
  audio context rejects. Each rejection goes to \<^verbatim>\<open>.catch(console.error)\<close>.
\<close>

record stop_env =
  sessionCloseRejects :: "thrown option"
  inputCloseRejects :: "thrown option"
  outputCloseRejects :: "thrown option"

definition catchConsoleError :: "thrown option \<Rightarrow> effect list" where
  "catchConsoleError r = (case r of None \<Rightarrow> [] | Some e \<Rightarrow> [ConsoleError e])"

definition closeContext :: "ctx_kind \<Rightarrow> ctx_state option \<Rightarrow> thrown option \<Rightarrow> effect list" where
  "closeContext k ctx rejects =
     (case ctx of
        None \<Rightarrow> []
      | Some st \<Rightarrow> if st \<noteq> Closed then ContextClose k # catchConsoleError rejects else [])"

definition stop :: "stop_env \<Rightarrow> hook \<Rightarrow> hook \<times> effect list" where
  "stop env h =
     (let fx1 = (case sessionPromiseRef h of
                   None \<Rightarrow> []
                 | Some session \<Rightarrow> SessionClose session # catchConsoleError (sessionCloseRejects env));
          h1 = h\<lparr>sessionPromiseRef := None\<rparr>;
          fx2 = (case microphoneStreamRef h1 of None \<Rightarrow> [] | Some tracks \<Rightarrow> map TrackStop tracks);
          h2 = h1\<lparr>microphoneStreamRef := None\<rparr>;
          fx3 = (case scriptProcessorRef h2 of None \<Rightarrow> [] | Some _ \<Rightarrow> [ProcessorDisconnect]);
          h3 = h2\<lparr>scriptProcessorRef := None\<rparr>;
          fx4 = closeContext InputCtx (inputAudioContextRef h3) (inputCloseRejects env);
          h4 = h3\<lparr>inputAudioContextRef := None\<rparr>;
          (h5, fx5) = stopAudioPlayback h4;
          fx6 = closeContext OutputCtx (outputAudioContextRef h5) (outputCloseRejects env);
          h6 = h5\<lparr>outputAudioContextRef := None\<rparr>
      in (h6\<lparr>isLiveConnected := False, status := ''Ready'', error := None\<rparr>,
          fx1 @ fx2 @ fx3 @ fx4 @ fx5 @ fx6))"

section \<open>Strings as JavaScript reads them\<close>

text \<open>
  A string is the list of the bytes of its UTF-8 form. \<^verbatim>\<open>String.prototype.trim\<close> takes
  the white space and the line terminators of the language off both ends: the code
  points U+0009 to U+000D, U+0020, U+00A0, U+1680, U+2000 to U+200A, U+2028, U+2029,
  U+202F, U+205F, U+3000 and U+FEFF, here each by its bytes. A string is truthy when it
  is defined and not empty; \<^verbatim>\<open>text || d\<close> is \<open>orElse text d\<close>.
\<close>

definition whiteSpace :: "string list" where
  "whiteSpace =
     [[CHR 0x09], [CHR 0x0A], [CHR 0x0B], [CHR 0x0C], [CHR 0x0D], [CHR 0x20],
      [CHR 0xC2, CHR 0xA0],
      [CHR 0xE1, CHR 0x9A, CHR 0x80],
      [CHR 0xE2, CHR 0x80, CHR 0x80], [CHR 0xE2, CHR 0x80, CHR 0x81], [CHR 0xE2, CHR 0x80, CHR 0x82],
      [CHR 0xE2, CHR 0x80, CHR 0x83], [CHR 0xE2, CHR 0x80, CHR 0x84], [CHR 0xE2, CHR 0x80, CHR 0x85],
      [CHR 0xE2, CHR 0x80, CHR 0x86], [CHR 0xE2, CHR 0x80, CHR 0x87], [CHR 0xE2, CHR 0x80, CHR 0x88],
      [CHR 0xE2, CHR 0x80, CHR 0x89], [CHR 0xE2, CHR 0x80, CHR 0x8A],
      [CHR 0xE2, CHR 0x80, CHR 0xA8], [CHR 0xE2, CHR 0x80, CHR 0xA9], [CHR 0xE2, CHR 0x80, CHR 0xAF],
      [CHR 0xE2, CHR 0x81, CHR 0x9F],
      [CHR 0xE3, CHR 0x80, CHR 0x80],
      [CHR 0xEF, CHR 0xBB, CHR 0xBF]]"

text \<open>Taking off the front of a string every piece of a table that it starts with, as
  long as there is one.\<close>

function stripLeading :: "string list \<Rightarrow> string \<Rightarrow> string" where
  "stripLeading table s =
     (case find (\<lambda>w. w \<noteq> [] \<and> prefix w s) table of
        None \<Rightarrow> s
      | Some w \<Rightarrow> stripLeading table (drop (length w) s))"
  by pat_completeness auto
termination
proof (relation "measure (\<lambda>(table, s). length s)")
  show "wf (measure (\<lambda>(table, s). length s))" by simp
next
  fix table :: "string list" and s w :: string
  assume "find (\<lambda>w. w \<noteq> [] \<and> prefix w s) table = Some w"
  then have "w \<noteq> []" and "prefix w s" by (auto simp: find_Some_iff)
  then have "s \<noteq> []" by auto
  with \<open>w \<noteq> []\<close> show "((table, drop (length w) s), (table, s)) \<in> measure (\<lambda>(table, s). length s)"
    by simp
qed

declare stripLeading.simps [simp del]

definition trim :: "string \<Rightarrow> string" where
  "trim s = rev (stripLeading (map rev whiteSpace) (rev (stripLeading whiteSpace s)))"

fun truthy :: "string option \<Rightarrow> bool" where
  "truthy None = False"
| "truthy (Some s) = (s \<noteq> [])"

fun orElse :: "string option \<Rightarrow> string \<Rightarrow> string" where
  "orElse None d = d"
| "orElse (Some s) d = (if s \<noteq> [] then s else d)"

fun showNat :: "nat \<Rightarrow> string" where
  "showNat n = (if n < 10 then [''0123456789'' ! n]
                else showNat (n div 10) @ [''0123456789'' ! (n mod 10)])"

declare showNat.simps [simp del]

fun join :: "string \<Rightarrow> string list \<Rightarrow> string" where
  "join sep [] = []"
| "join sep [x] = x"
| "join sep (x # y # ys) = x @ sep @ join sep (y # ys)"

section \<open>The tool-call dispatcher\<close>

text \<open>
  A function call of a tool-call batch: \<^verbatim>\<open>fc.id\<close>, \<^verbatim>\<open>fc.name\<close> and \<^verbatim>\<open>fc.args\<close>, the
  arguments as an association list (\<^verbatim>\<open>const { prompt } = fc.args\<close> is a lookup, absent
  when the key is).
\<close>

record function_call =
  fc_id :: string
  fc_name :: string
  fc_args :: "(string \<times> string) list"

text \<open>
  The answer of the grounded-generation capability, as far as the hook reads it:
  \<^verbatim>\<open>response.text\<close> and the \<^verbatim>\<open>web\<close> entry of every grounding chunk of the first
  candidate, each of them possibly absent.
\<close>

datatype web = Web (web_uri: "string option") (web_title: "string option")

record content_response =
  response_text :: "string option"
  groundingChunks :: "web option list option"

text \<open>The HTTP exchange of \<^verbatim>\<open>fetchYouTubeVideos\<close>: \<^verbatim>\<open>fetch\<close> throws, or the response is
  not \<^verbatim>\<open>ok\<close> and carries an error message, or it carries the items.\<close>

datatype http_result = FetchThrows thrown | NotOk string | Ok "video list"

text \<open>
  What the environment decides while one server message is handled: the clock
  (\<^verbatim>\<open>Date.now()\<close>, read once for the handler), the external capabilities (each answers a
  call, given the call's id and argument, with a value or by throwing), the key
  \<^verbatim>\<open>YOUTUBE_API_KEY\<close> of \<^verbatim>\<open>config.ts\<close>, the playback clock
  \<^verbatim>\<open>audioContext.currentTime\<close>, and what \<^verbatim>\<open>decodeAudioData(decode(...))\<close> of
  \<^verbatim>\<open>utils/audioUtils\<close> does with the fragment: it throws, or it gives the buffer (its
  duration, and the new source node made for it).
\<close>

record message_env =
  now :: nat
  generateImages :: "string \<Rightarrow> string option \<Rightarrow> thrown + string list"
  generateContent :: "string \<Rightarrow> string option \<Rightarrow> thrown + content_response"
  youtubeApiKey :: string
  fetchYouTube :: "string \<Rightarrow> string option \<Rightarrow> http_result"
  currentTime :: real
  decodeThrows :: "thrown option"
  bufferDuration :: real
  newSource :: nat

definition addMessage :: "message \<Rightarrow> hook \<Rightarrow> hook" where
  "addMessage message h = h\<lparr>messages := messages h @ [message]\<rparr>"

definition fetchYouTubeVideos :: "string \<Rightarrow> http_result \<Rightarrow> (thrown + video list) \<times> effect list" where
  "fetchYouTubeVideos apiKey http =
     (if apiKey = [] then
        (Inl (ErrorObject ''The YouTube API key is not configured in config.ts. Please add your key to enable video search.''), [])
      else case http of
        FetchThrows e \<Rightarrow> (Inl e, [ConsoleError e])
      | NotOk m \<Rightarrow> (let e = ErrorObject (''YouTube API error: '' @ m) in (Inl e, [ConsoleError e]))
      | Ok results \<Rightarrow> (Inr results, []))"

fun groundedSource :: "web option \<Rightarrow> (string \<times> string) list" where
  "groundedSource (Some (Web (Some u) (Some t))) = (if u \<noteq> [] \<and> t \<noteq> [] then [(u, t)] else [])"
| "groundedSource _ = []"

definition groundedSources :: "web option list option \<Rightarrow> (string \<times> string) list" where
  "groundedSources chunks = (case chunks of None \<Rightarrow> [] | Some ws \<Rightarrow> concat (map groundedSource ws))"

definition handoffText :: string where
  "handoffText = ''Let me check with my partner AI for better assistance...''"

definition searchFallbackText :: string where
  "searchFallbackText = ''I looked for that, but couldn't find any specific information.''"

definition videoFallbackText :: string where
  "videoFallbackText = ''Sorry, no videos could be found that allow playback here.''"

definition modelMessage :: "nat \<Rightarrow> message_part list \<Rightarrow> message" where
  "modelMessage t ps = \<lparr> msg_id = TimeId t, speaker = Model, parts = ps \<rparr>"

text \<open>
  The \<^verbatim>\<open>try\<close> block of the loop body: the messages it appends and the value it leaves in
  \<^verbatim>\<open>functionResponse\<close> (\<open>None\<close> is \<^verbatim>\<open>undefined\<close>), or what it throws. No branch throws
  after its \<^verbatim>\<open>addMessage\<close>. Reading \<^verbatim>\<open>generatedImages[0].image\<close> of an empty answer
  throws a \<^verbatim>\<open>TypeError\<close>.
\<close>

definition tryToolCall ::
  "message_env \<Rightarrow> hook \<Rightarrow> function_call \<Rightarrow> (thrown + message list \<times> func_response option) \<times> effect list" where
  "tryToolCall env h fc =
     (if fc_name fc = ''generateImage'' \<and> aiRef h \<noteq> None then
        (let prompt = map_of (fc_args fc) ''prompt'' in
         case generateImages env (fc_id fc) prompt of
           Inl e \<Rightarrow> (Inl e, [])
         | Inr [] \<Rightarrow> (Inl (ErrorObject ''Cannot read properties of undefined (reading 'image')''), [])
         | Inr (base64ImageBytes # _) \<Rightarrow>
             (Inr ([modelMessage (now env) [ImagePart (''data:image/jpeg;base64,'' @ base64ImageBytes) prompt]],
                   Some (Result ''OK, I've generated that image for you.'')), []))
      else if fc_name fc = ''googleSearch'' \<and> aiRef h \<noteq> None then
        (let query = map_of (fc_args fc) ''query'' in
         case generateContent env (fc_id fc) query of
           Inl e \<Rightarrow> (Inl e, [])
         | Inr response \<Rightarrow>
             (let text = map_option trim (response_text response);
                  sources = groundedSources (groundingChunks response)
              in if truthy text \<or> sources \<noteq> [] then
                   (let ps = (case text of None \<Rightarrow> [] | Some t \<Rightarrow> if t \<noteq> [] then [TextPart t] else [])
                                @ (if sources \<noteq> [] then [SourcePart sources] else [])
                    in (Inr ([modelMessage (now env) ps],
                             Some (Result (orElse text ''I found some information for you.''))), []))
                 else
                   (Inr ([modelMessage (now env) [TextPart searchFallbackText]],
                         Some (Result searchFallbackText)), [])))
      else if fc_name fc = ''youtubeSearch'' then
        (let query = map_of (fc_args fc) ''query'';
             (r, fx) = fetchYouTubeVideos (youtubeApiKey env) (fetchYouTube env (fc_id fc) query)
         in case r of
              Inl e \<Rightarrow> (Inl e, fx)
            | Inr found \<Rightarrow>
                if found \<noteq> [] then
                  (Inr ([modelMessage (now env) [TextPart ''Found some videos for you:'', YouTubePart found]],
                        Some (Result (''OK, I found '' @ showNat (length found) @ '' videos.''))), fx)
                else
                  (Inr ([modelMessage (now env) [TextPart videoFallbackText]],
                        Some (Result videoFallbackText)), fx))
      else (Inr ([], None), []))"

text \<open>
  One turn of the loop over \<^verbatim>\<open>message.toolCall.functionCalls\<close>: the \<^verbatim>\<open>try\<close> block, the
  \<^verbatim>\<open>catch\<close> block, and then, outside both, the tool response queued on the session that
  the slot holds.
\<close>

definition toolErrorMessage :: "nat \<Rightarrow> string \<Rightarrow> message" where
  "toolErrorMessage t errorMessage = modelMessage t [TextPart (''An error occurred: '' @ errorMessage)]"

definition processCall :: "message_env \<Rightarrow> function_call \<Rightarrow> hook \<Rightarrow> hook \<times> effect list" where
  "processCall env fc h =
     (let (r, fx) = tryToolCall env h fc;
          (h', functionResponse, fx') =
             (case r of
                Inr (appended, response) \<Rightarrow> (h\<lparr>messages := messages h @ appended\<rparr>, response, fx)
              | Inl e \<Rightarrow>
                  (let errorMessage = errorMessageOf e
                   in (addMessage (toolErrorMessage (now env) errorMessage)
                         (h\<lparr>error := Some (''Error with tool: '' @ errorMessage)\<rparr>),
                       Some (Failure (''Tool execution failed: '' @ errorMessage)),
                       fx @ [ConsoleError e])))
      in (h', fx' @ (case sessionPromiseRef h' of
                       None \<Rightarrow> []
                     | Some session \<Rightarrow> [SendToolResponse session (fc_id fc) (fc_name fc) functionResponse])))"

fun processCalls :: "message_env \<Rightarrow> function_call list \<Rightarrow> hook \<Rightarrow> hook \<times> effect list" where
  "processCalls env [] h = (h, [])"
| "processCalls env (fc # fcs) h =
     (let (h1, fx1) = processCall env fc h;
          (h2, fx2) = processCalls env fcs h1
      in (h2, fx1 @ fx2))"

section \<open>The message handler \<^verbatim>\<open>onmessage\<close>\<close>

text \<open>
  A \<^verbatim>\<open>LiveServerMessage\<close> as far as the handler reads it. A transcription is present
  with its text. The model turn is present or not, and so are its parts; of each part
  the handler reads \<^verbatim>\<open>inlineData?.data\<close>. The tool-call batch is present or not, and
  so is its list \<^verbatim>\<open>functionCalls\<close>.
\<close>

datatype model_turn = ModelTurn "string option list option"

record server_content =
  outputTranscription :: "string option"
  inputTranscription :: "string option"
  turnComplete :: bool
  modelTurn :: "model_turn option"
  interrupted :: bool

record tool_call =
  functionCalls :: "function_call list option"

record live_message =
  serverContent :: "server_content option"
  toolCall :: "tool_call option"

definition turnCompleted :: "live_message \<Rightarrow> bool" where
  "turnCompleted m = (case serverContent m of None \<Rightarrow> False | Some sc \<Rightarrow> turnComplete sc)"

definition wasInterrupted :: "live_message \<Rightarrow> bool" where
  "wasInterrupted m = (case serverContent m of None \<Rightarrow> False | Some sc \<Rightarrow> interrupted sc)"

text \<open>
  \<^verbatim>\<open>message.serverContent?.modelTurn?.parts[0]?.inlineData?.data\<close>: there is no \<^verbatim>\<open>?.\<close>
  before \<^verbatim>\<open>[0]\<close>, so a model turn without parts makes the expression throw a
  \<^verbatim>\<open>TypeError\<close>; a model turn with an empty list of parts gives \<^verbatim>\<open>undefined\<close>.
\<close>

definition base64Audio :: "live_message \<Rightarrow> thrown + string option" where
  "base64Audio m =
     (case serverContent m of
        None \<Rightarrow> Inr None
      | Some sc \<Rightarrow>
          (case modelTurn sc of
             None \<Rightarrow> Inr None
           | Some (ModelTurn None) \<Rightarrow> Inl (ErrorObject ''Cannot read properties of undefined (reading '0')'')
           | Some (ModelTurn (Some [])) \<Rightarrow> Inr None
           | Some (ModelTurn (Some (part # _))) \<Rightarrow> Inr part))"

definition accumulateTranscription :: "live_message \<Rightarrow> hook \<Rightarrow> hook" where
  "accumulateTranscription m h =
     (case serverContent m of
        None \<Rightarrow> h
      | Some sc \<Rightarrow>
          (case outputTranscription sc of
             Some t \<Rightarrow> h\<lparr>currentOutputTranscriptionRef := currentOutputTranscriptionRef h @ t\<rparr>
           | None \<Rightarrow>
               (case inputTranscription sc of
                  Some t \<Rightarrow> h\<lparr>currentInputTranscriptionRef := currentInputTranscriptionRef h @ t\<rparr>
                | None \<Rightarrow> h)))"

definition handoffMessage :: "nat \<Rightarrow> message" where
  "handoffMessage t = \<lparr> msg_id = HandoffId t, speaker = Model, parts = [TextPart handoffText] \<rparr>"

text \<open>
  The tool-call block. The notice is appended and the status set before the loop; the
  loop \<^verbatim>\<open>for (const fc of message.toolCall.functionCalls)\<close> is outside every \<^verbatim>\<open>try\<close>,
  so a batch without its list throws there.
\<close>

definition handleToolCall :: "message_env \<Rightarrow> live_message \<Rightarrow> hook \<Rightarrow> hook \<times> effect list" where
  "handleToolCall env m h =
     (case toolCall m of
        None \<Rightarrow> (h, [])
      | Some batch \<Rightarrow>
          (let h1 = (addMessage (handoffMessage (now env)) h)\<lparr>status := ''Thinking...''\<rparr>
           in case functionCalls batch of
                None \<Rightarrow> (h1, [UnhandledRejection (ErrorObject ''message.toolCall.functionCalls is not iterable'')])
              | Some calls \<Rightarrow> processCalls env calls h1))"

definition handleTurnComplete :: "message_part option \<Rightarrow> message_env \<Rightarrow> live_message \<Rightarrow> hook \<Rightarrow> hook" where
  "handleTurnComplete imagePart env m h =
     (if turnCompleted m then
        (let fullInput = trim (currentInputTranscriptionRef h);
             h1 = (if fullInput \<noteq> [] then
                     addMessage \<lparr> msg_id = TimeId (now env), speaker = User,
                                  parts = (case imagePart of
                                             Some p \<Rightarrow> [p, TextPart fullInput]
                                           | None \<Rightarrow> [TextPart fullInput]) \<rparr> h
                   else h);
             fullOutput = trim (currentOutputTranscriptionRef h1);
             h2 = (if fullOutput \<noteq> [] then addMessage (modelMessage (now env) [TextPart fullOutput]) h1
                   else h1)
         in h2\<lparr>currentInputTranscriptionRef := [], currentOutputTranscriptionRef := [],
                status := ''Listening...''\<rparr>)
      else h)"

text \<open>
  The audio block, from the reading of \<^verbatim>\<open>base64Audio\<close> on. The status and the maximum
  are set before \<^verbatim>\<open>await decodeAudioData(decode(base64Audio), ...)\<close>, which is outside
  every \<^verbatim>\<open>try\<close>; the source is started, the duration added and the source put into
  the set after it.
\<close>

definition handleAudio :: "message_env \<Rightarrow> live_message \<Rightarrow> hook \<Rightarrow> hook \<times> effect list" where
  "handleAudio env m h =
     (case base64Audio m of
        Inl err \<Rightarrow> (h, [UnhandledRejection err])
      | Inr audio \<Rightarrow>
          if truthy audio \<and> outputAudioContextRef h \<noteq> None then
            (let h1 = h\<lparr>status := ''Speaking...'',
                         nextStartTimeRef := max (nextStartTimeRef h) (currentTime env)\<rparr>
             in case decodeThrows env of
                  Some err \<Rightarrow> (h1, [UnhandledRejection err])
                | None \<Rightarrow>
                    (let source = newSource env;
                         fx = [SourceStart source (nextStartTimeRef h1)];
                         h2 = h1\<lparr>nextStartTimeRef := nextStartTimeRef h1 + bufferDuration env\<rparr>
                     in (h2\<lparr>audioSourcesRef := (if source \<in> set (audioSourcesRef h2) then audioSourcesRef h2
                                                   else audioSourcesRef h2 @ [source])\<rparr>, fx)))
          else (h, []))"

definition handleInterrupted :: "live_message \<Rightarrow> hook \<Rightarrow> hook \<times> effect list" where
  "handleInterrupted m h = (if wasInterrupted m then stopAudioPlayback h else (h, []))"

text \<open>
  The handler runs its five blocks in the source's order; a block that throws ends it,
  and the blocks after it are not run. \<open>imagePart\<close> is the argument of the \<^verbatim>\<open>start\<close>
  call that made the session, which the callback closes over. Between two of its
  \<^verbatim>\<open>await\<close>s the handler is taken not to be interleaved with another handler.
\<close>

definition onmessage :: "message_part option \<Rightarrow> message_env \<Rightarrow> live_message \<Rightarrow> hook \<Rightarrow> hook \<times> effect list" where
  "onmessage imagePart env m h =
     (let h1 = accumulateTranscription m h;
          (h2, fx2) = handleToolCall env m h1
      in if threw fx2 then (h2, fx2)
         else
           (let h3 = handleTurnComplete imagePart env m h2;
                (h4, fx4) = handleAudio env m h3
            in if threw fx4 then (h4, fx2 @ fx4)
               else
                 (let (h5, fx5) = handleInterrupted m h4
                  in (h5, fx2 @ fx4 @ fx5))))"

text \<open>The \<^verbatim>\<open>ended\<close> listener of a playback source, with the \<^verbatim>\<open>turnComplete\<close> flag of the
  message that scheduled it.\<close>

definition onended :: "bool \<Rightarrow> nat \<Rightarrow> hook \<Rightarrow> hook" where
  "onended messageTurnComplete source h =
     (let h1 = h\<lparr>audioSourcesRef := removeAll source (audioSourcesRef h)\<rparr>
      in if audioSourcesRef h1 = [] \<and> \<not> messageTurnComplete then h1\<lparr>status := ''Listening...''\<rparr>
         else h1)"

text \<open>The capture callback \<^verbatim>\<open>onaudioprocess\<close>, given the blob that \<^verbatim>\<open>createBlob\<close> made.\<close>

definition onaudioprocess :: "string \<Rightarrow> hook \<Rightarrow> effect list" where
  "onaudioprocess pcmBlob h =
     (if isMicMuted h then []
      else case sessionPromiseRef h of None \<Rightarrow> [] | Some session \<Rightarrow> [SendRealtimeInput session pcmBlob])"

section \<open>Opening a session: \<^verbatim>\<open>start\<close> and its callbacks\<close>

datatype topic = General | SpeechTherapy | LearnEnglish

datatype language = EnUS | TeIN

fun topicInstructions :: "topic \<Rightarrow> string" where
  "topicInstructions SpeechTherapy = ''You are a specialized speech therapy assistant. Speak slowly and clearly. Guide the user through speech exercises. Be patient and supportive. Focus on articulation and fluency.''"
| "topicInstructions LearnEnglish = ''You are an expert English language tutor. Speak clearly in English. Help the user practice their pronunciation, vocabulary, and grammar. Keep your responses encouraging and conversational.''"
| "topicInstructions General = ''You are a friendly and helpful voice assistant. Keep your responses concise and conversational.''"

definition textContent :: "message \<Rightarrow> string" where
  "textContent m = join '' '' [c. TextPart c \<leftarrow> parts m]"

definition historyText :: "message list \<Rightarrow> string" where
  "historyText history =
     (if history \<noteq> [] then
        [CHR 0x0A, CHR 0x0A] @ ''This is the conversation history so far:'' @ [CHR 0x0A]
        @ join [CHR 0x0A] (map (\<lambda>m. (if speaker m = User then ''User'' else ''Zud'') @ '': '' @ textContent m) history)
        @ [CHR 0x0A] @ ''Continue the conversation.''
      else [])"

definition systemInstruction :: "message list \<Rightarrow> topic \<Rightarrow> language \<Rightarrow> string" where
  "systemInstruction history topic language =
     ''You are Zud Assistance. '' @ topicInstructions topic @ '' ''
     @ (if language = TeIN then ''You MUST respond in the Telugu language.'' else ''You MUST respond in English.'')
     @ '' '' @ historyText history"

text \<open>
  What the environment decides during \<^verbatim>\<open>start\<close>: \<^verbatim>\<open>process.env.API_KEY\<close>, whether the
  \<^verbatim>\<open>AudioContext\<close> constructor throws, and the clock. \<^verbatim>\<open>live.connect\<close> returns a promise
  that \<^verbatim>\<open>start\<close> does not await, so its failure is not caught here.
\<close>

record start_env =
  apiKey :: "string option"
  outputContextThrows :: "thrown option"
  startNow :: nat

definition startFailed :: "thrown \<Rightarrow> hook \<Rightarrow> hook \<times> effect list" where
  "startFailed err h =
     (h\<lparr>error := Some (''Failed to start session: '' @ errorMessageOf err), status := ''Error'',
        isLiveConnected := False\<rparr>, [ConsoleError err])"

text \<open>\<open>newSession\<close> is the handle of the session that \<^verbatim>\<open>live.connect\<close> makes.\<close>

definition start ::
  "start_env \<Rightarrow> message list \<Rightarrow> topic \<Rightarrow> language \<Rightarrow> message_part option \<Rightarrow> nat \<Rightarrow> hook \<Rightarrow> hook \<times> effect list" where
  "start env history topic language imagePart newSession h =
     (if isLiveConnected h then (h, [])
      else
        (let h1 = h\<lparr>status := ''Connecting...'', error := None, messages := [],
                     currentInputTranscriptionRef := [], currentOutputTranscriptionRef := []\<rparr>
         in if \<not> truthy (apiKey env) then
              startFailed (ErrorObject ''API_KEY environment variable not set.'') h1
            else
              (let h2 = h1\<lparr>aiRef := apiKey env\<rparr>
               in case outputContextThrows env of
                    Some err \<Rightarrow> startFailed err h2
                  | None \<Rightarrow>
                      (let h3 = h2\<lparr>outputAudioContextRef := Some Running\<rparr>;
                           h4 = (case imagePart of
                                   Some p \<Rightarrow> addMessage \<lparr> msg_id = TimeId (startNow env), speaker = User,
                                                           parts = [p] \<rparr> h3
                                 | None \<Rightarrow> h3)
                       in (h4\<lparr>sessionPromiseRef := Some newSession\<rparr>,
                           [SessionConnect newSession (systemInstruction history topic language)])))))"

text \<open>
  What the environment decides during \<^verbatim>\<open>onopen\<close>: what \<^verbatim>\<open>getUserMedia\<close> gives (the
  tracks of the stream) or throws, whether the capture \<^verbatim>\<open>AudioContext\<close> constructor
  throws, and what happens inside the \<^verbatim>\<open>stop\<close> of the \<^verbatim>\<open>catch\<close> block.
\<close>

record open_env =
  getUserMedia :: "thrown + nat list"
  inputContextThrows :: "thrown option"
  openStop :: stop_env

definition microphoneFailed :: "stop_env \<Rightarrow> thrown \<Rightarrow> hook \<Rightarrow> hook \<times> effect list" where
  "microphoneFailed env err h =
     stop env (h\<lparr>error := Some (''Microphone error: '' @ errorMessageOf err), status := ''Error''\<rparr>)"

definition onopen :: "open_env \<Rightarrow> hook \<Rightarrow> hook \<times> effect list" where
  "onopen env h =
     (let h1 = h\<lparr>isLiveConnected := True, status := ''Listening...''\<rparr>
      in case getUserMedia env of
           Inl err \<Rightarrow> microphoneFailed (openStop env) err h1
         | Inr tracks \<Rightarrow>
             (let h2 = h1\<lparr>microphoneStreamRef := Some tracks\<rparr>
              in case inputContextThrows env of
                   Some err \<Rightarrow> microphoneFailed (openStop env) err h2
                 | None \<Rightarrow> (h2\<lparr>inputAudioContextRef := Some Running, scriptProcessorRef := Some ()\<rparr>, [])))"

definition onerror :: "stop_env \<Rightarrow> string \<Rightarrow> hook \<Rightarrow> hook \<times> effect list" where
  "onerror env errorMessage h =
     (let (h', fx) = stop env (h\<lparr>error := Some (''Session error: '' @ errorMessage), status := ''Error''\<rparr>)
      in (h', ConsoleError (ErrorObject errorMessage) # fx))"

definition onclose :: "stop_env \<Rightarrow> hook \<Rightarrow> hook \<times> effect list" where
  "onclose env h = stop env h"

definition toggleMicMute :: "hook \<Rightarrow> hook" where
  "toggleMicMute h = h\<lparr>isMicMuted := \<not> isMicMuted h\<rparr>"

definition clearSessionMessages :: "hook \<Rightarrow> hook" where
  "clearSessionMessages h = h\<lparr>messages := []\<rparr>"

section \<open>The hook in its environment\<close>

text \<open>
  The sessions that \<^verbatim>\<open>live.connect\<close> has made, each with its state and the
  \<open>imagePart\<close> its callbacks close over; the handle of a session is its place in the
  list. A session is connecting until the remote side opens it, and closed once
  \<^verbatim>\<open>close()\<close> is queued on it or the remote side closes it. The world keeps the hook's
  state, the sessions, and every effect so far.
\<close>

datatype session_status = SessionConnecting | SessionOpen | SessionClosed

type_synonym session = "session_status \<times> message_part option"

record world =
  hookState :: hook
  sessions :: "session list"
  trace :: "effect list"

definition world0 :: world where
  "world0 = \<lparr> hookState = initial, sessions = [], trace = [] \<rparr>"

definition markSession :: "nat \<Rightarrow> session_status \<Rightarrow> session list \<Rightarrow> session list" where
  "markSession sid st ss = (if sid < length ss then ss[sid := (st, snd (ss ! sid))] else ss)"

fun settle :: "message_part option \<Rightarrow> effect list \<Rightarrow> session list \<Rightarrow> session list" where
  "settle img [] ss = ss"
| "settle img (SessionConnect sid instruction # fx) ss = settle img fx (ss @ [(SessionConnecting, img)])"
| "settle img (SessionClose sid # fx) ss = settle img fx (markSession sid SessionClosed ss)"
| "settle img (_ # fx) ss = settle img fx ss"

definition deliver :: "message_part option \<Rightarrow> hook \<times> effect list \<Rightarrow> world \<Rightarrow> world" where
  "deliver img r w =
     w\<lparr>hookState := fst r, sessions := settle img (snd r) (sessions w), trace := trace w @ snd r\<rparr>"

definition statusOf :: "world \<Rightarrow> nat \<Rightarrow> session_status option" where
  "statusOf w sid = (if sid < length (sessions w) then Some (fst (sessions w ! sid)) else None)"

definition imageOf :: "world \<Rightarrow> nat \<Rightarrow> message_part option" where
  "imageOf w sid = (if sid < length (sessions w) then snd (sessions w ! sid) else None)"

text \<open>
  What can happen: a call of the hook's \<^verbatim>\<open>start\<close>, \<^verbatim>\<open>stop\<close>, \<^verbatim>\<open>toggleMicMute\<close> or
  \<^verbatim>\<open>clearSessionMessages\<close>, a callback of a session (\<^verbatim>\<open>onopen\<close> of a connecting one,
  \<^verbatim>\<open>onmessage\<close> of an open one, \<^verbatim>\<open>onerror\<close> and \<^verbatim>\<open>onclose\<close> of one not yet closed),
  the end of a playback source, a capture frame. A callback of a session in another
  state does not happen: the step leaves the world as it is.

  The runs of this model are the runs of the code in which every handler has finished
  before the next event, and in which a session gets no callback once \<^verbatim>\<open>close()\<close> is
  queued on it. The code has other runs (a \<^verbatim>\<open>stop\<close> while \<^verbatim>\<open>onopen\<close> waits for the
  microphone, say), so a state that no run of the model reaches may still be reached
  by the code. What is proved below of every run is proved of these runs; where a
  statement needs more of a state than that, it says so as a hypothesis on the state.
\<close>

datatype event =
    Start start_env "message list" topic language "message_part option"
  | Stop stop_env
  | OnOpen nat open_env
  | OnMessage nat message_env live_message
  | OnError nat stop_env string
  | OnClose nat stop_env
  | OnEnded bool nat
  | OnAudioProcess string
  | ToggleMicMute
  | ClearSessionMessages

fun step :: "event \<Rightarrow> world \<Rightarrow> world" where
  "step (Start env history topic language img) w =
     deliver img (start env history topic language img (length (sessions w)) (hookState w)) w"
| "step (Stop env) w = deliver None (stop env (hookState w)) w"
| "step (OnOpen sid env) w =
     (if statusOf w sid = Some SessionConnecting then
        deliver None (onopen env (hookState w)) (w\<lparr>sessions := markSession sid SessionOpen (sessions w)\<rparr>)
      else w)"
| "step (OnMessage sid env m) w =
     (if statusOf w sid = Some SessionOpen then
        deliver None (onmessage (imageOf w sid) env m (hookState w)) w
      else w)"
| "step (OnError sid env errorMessage) w =
     (if statusOf w sid = Some SessionConnecting \<or> statusOf w sid = Some SessionOpen then
        deliver None (onerror env errorMessage (hookState w)) w
      else w)"
| "step (OnClose sid env) w =
     (if statusOf w sid = Some SessionConnecting \<or> statusOf w sid = Some SessionOpen then
        deliver None (onclose env (hookState w)) (w\<lparr>sessions := markSession sid SessionClosed (sessions w)\<rparr>)
      else w)"
| "step (OnEnded messageTurnComplete source) w =
     w\<lparr>hookState := onended messageTurnComplete source (hookState w)\<rparr>"
| "step (OnAudioProcess pcmBlob) w = w\<lparr>trace := trace w @ onaudioprocess pcmBlob (hookState w)\<rparr>"
| "step ToggleMicMute w = w\<lparr>hookState := toggleMicMute (hookState w)\<rparr>"
| "step ClearSessionMessages w = w\<lparr>hookState := clearSessionMessages (hookState w)\<rparr>"

fun run :: "event list \<Rightarrow> world \<Rightarrow> world" where
  "run [] w = w"
| "run (e # es) w = run es (step e w)"

text \<open>The sessions that are connected: opened by the remote side and not closed.\<close>

definition connectedSessions :: "world \<Rightarrow> nat list" where
  "connectedSessions w = [sid \<leftarrow> [0 ..< length (sessions w)]. fst (sessions w ! sid) = SessionOpen]"


section \<open>Predicates on states, messages and effects\<close>

text \<open>
  The idle state of the session status: the status is \<^verbatim>\<open>'Ready'\<close> with no error shown,
  nothing is connected, and the hook holds no session, no microphone stream, no capture
  node and no audio context. (With the status \<^verbatim>\<open>'Error'\<close> the hook is in the error
  state, not the idle one.)
\<close>

definition idle :: "hook \<Rightarrow> bool" where
  "idle h = (status h = ''Ready'' \<and> error h = None \<and> \<not> isLiveConnected h \<and>
     sessionPromiseRef h = None \<and> microphoneStreamRef h = None \<and> scriptProcessorRef h = None \<and>
     inputAudioContextRef h = None \<and> outputAudioContextRef h = None)"

definition partsNonEmpty :: "message list \<Rightarrow> bool" where
  "partsNonEmpty ms = list_all (\<lambda>m. parts m \<noteq> []) ms"

fun sessionEffect :: "effect \<Rightarrow> bool" where
  "sessionEffect (SessionConnect sid instruction) = True"
| "sessionEffect (SessionClose sid) = True"
| "sessionEffect _ = False"

fun playbackEffect :: "effect \<Rightarrow> bool" where
  "playbackEffect (SourceStart source t) = True"
| "playbackEffect (SourceStop source) = True"
| "playbackEffect _ = False"

fun consoleEffect :: "effect \<Rightarrow> bool" where
  "consoleEffect (ConsoleError e) = True"
| "consoleEffect _ = False"

fun toolResponseEffect :: "effect \<Rightarrow> bool" where
  "toolResponseEffect (SendToolResponse session call name response) = True"
| "toolResponseEffect _ = False"


text \<open>The start times of the sources that a list of effects starts, and the fragments
  (clock at arrival, duration) that a list of arriving messages carries.\<close>

definition scheduledStarts :: "effect list \<Rightarrow> real list" where
  "scheduledStarts fx = concat (map (\<lambda>x. case x of SourceStart source t \<Rightarrow> [t] | _ \<Rightarrow> []) fx)"

definition carriesAudio :: "live_message \<Rightarrow> bool" where
  "carriesAudio m = (case base64Audio m of Inl err \<Rightarrow> False | Inr audio \<Rightarrow> truthy audio)"



text \<open>The state of the hook when the message handler reaches its audio block.\<close>

definition beforeAudio :: "message_part option \<Rightarrow> message_env \<Rightarrow> live_message \<Rightarrow> hook \<Rightarrow> hook" where
  "beforeAudio img env m h =
     handleTurnComplete img env m (fst (handleToolCall env m (accumulateTranscription m h)))"




text \<open>
  The rejections that happen during a \<^verbatim>\<open>stop\<close>: the one of the chain on the session
  promise when the slot holds a session, and the one of the \<^verbatim>\<open>close()\<close> of each audio
  context that the hook holds and that is not closed yet.
\<close>

definition rejected :: "'a option \<Rightarrow> thrown option \<Rightarrow> thrown list" where
  "rejected held rejects = (case held of None \<Rightarrow> [] | Some x \<Rightarrow> (case rejects of None \<Rightarrow> [] | Some e \<Rightarrow> [e]))"

definition openContext :: "ctx_state option \<Rightarrow> ctx_state option" where
  "openContext ctx = (case ctx of None \<Rightarrow> None | Some st \<Rightarrow> if st = Closed then None else Some st)"

definition rejections :: "stop_env \<Rightarrow> hook \<Rightarrow> thrown list" where
  "rejections env h =
     rejected (sessionPromiseRef h) (sessionCloseRejects env)
     @ rejected (openContext (inputAudioContextRef h)) (inputCloseRejects env)
     @ rejected (openContext (outputAudioContextRef h)) (outputCloseRejects env)"

section \<open>Concrete environments\<close>

text \<open>Environments in which nothing fails, and the ones of the scenarios below.\<close>

definition startOk :: start_env where
  "startOk = \<lparr> apiKey = Some ''key'', outputContextThrows = None, startNow = 0 \<rparr>"

definition noRejections :: stop_env where
  "noRejections = \<lparr> sessionCloseRejects = None, inputCloseRejects = None, outputCloseRejects = None \<rparr>"

definition micGranted :: open_env where
  "micGranted = \<lparr> getUserMedia = Inr [0], inputContextThrows = None, openStop = noRejections \<rparr>"

definition micDenied :: open_env where
  "micDenied = \<lparr> getUserMedia = Inl (ErrorObject ''Permission denied''), inputContextThrows = None,
     openStop = noRejections \<rparr>"

definition citedOnly :: content_response where
  "citedOnly = \<lparr> response_text = None,
     groundingChunks = Some [Some (Web (Some ''https://example.org'') (Some ''Example''))] \<rparr>"

definition sampleEnv :: message_env where
  "sampleEnv = \<lparr> now = 1,
     generateImages = (\<lambda>call prompt. Inl (ErrorObject ''quota exceeded'')),
     generateContent = (\<lambda>call query. Inr citedOnly),
     youtubeApiKey = ''key'',
     fetchYouTube = (\<lambda>call query. Ok []),
     currentTime = 1, decodeThrows = None, bufferDuration = 1 / 2, newSource = 0 \<rparr>"

definition toolCallMessage :: "function_call list \<Rightarrow> live_message" where
  "toolCallMessage fcs = \<lparr> serverContent = None, toolCall = Some \<lparr> functionCalls = Some fcs \<rparr> \<rparr>"

text \<open>The state of the hook once a first session has been started and opened with the
  microphone granted, and the world around it.\<close>

definition listening :: hook where
  "listening = \<lparr> status = ''Listening...'', error = None, messages = [], isLiveConnected = True,
     isMicMuted = False, aiRef = Some ''key'', sessionPromiseRef = Some 0,
     inputAudioContextRef = Some Running, outputAudioContextRef = Some Running,
     microphoneStreamRef = Some [0], scriptProcessorRef = Some (), nextStartTimeRef = 0,
     audioSourcesRef = [], currentInputTranscriptionRef = [],
     currentOutputTranscriptionRef = [] \<rparr>"

definition openSession :: "event list" where
  "openSession = [Start startOk [] General EnUS None, OnOpen 0 micGranted]"

definition imageCall :: function_call where
  "imageCall = \<lparr> fc_id = ''call-1'', fc_name = ''generateImage'', fc_args = [(''prompt'', ''a red kite'')] \<rparr>"

definition searchCall :: function_call where
  "searchCall = \<lparr> fc_id = ''call-2'', fc_name = ''googleSearch'', fc_args = [(''query'', ''kites'')] \<rparr>"

definition timerCall :: function_call where
  "timerCall = \<lparr> fc_id = ''call-3'', fc_name = ''setTimer'', fc_args = [] \<rparr>"





definition failedImage :: "event list" where
  "failedImage = openSession @ [OnMessage 0 sampleEnv (toolCallMessage [imageCall])]"


definition startTwice :: "event list" where
  "startTwice = [Start startOk [] General EnUS None, Start startOk [] General EnUS None,
     OnOpen 0 micGranted, OnOpen 1 micGranted]"


text \<open>A teardown in which the \<^verbatim>\<open>close()\<close> of the session throws.\<close>

definition closeThrows :: stop_env where
  "closeThrows = \<lparr> sessionCloseRejects = Some (ErrorObject ''socket is gone''),
     inputCloseRejects = None, outputCloseRejects = None \<rparr>"

section \<open>What each handler changes and what it leaves alone\<close>



lemma stopSources_effects: "snd (stopSources xs active) = map SourceStop xs"
  by (induction xs arbitrary: active) (simp_all add: split_beta)

lemma stopSources_set: "set (fst (stopSources xs active)) = set active - set xs"
  by (induction xs arbitrary: active) (auto simp: split_beta)

lemma stopSources_all: "fst (stopSources xs xs) = []"
  using stopSources_set [of xs xs] by simp

lemma stopAudioPlayback_none:
  "outputAudioContextRef h = None \<Longrightarrow> stopAudioPlayback h = (h, [])"
  by (simp add: stopAudioPlayback_def)

lemma stopAudioPlayback_some:
  "outputAudioContextRef h \<noteq> None \<Longrightarrow>
   stopAudioPlayback h = (h\<lparr>audioSourcesRef := [], nextStartTimeRef := 0\<rparr>, map SourceStop (audioSourcesRef h))"
  using stopSources_all [of "audioSourcesRef h"] stopSources_effects [of "audioSourcesRef h" "audioSourcesRef h"]
  by (simp add: stopAudioPlayback_def split_beta prod_eq_iff)

lemma stop_idle: "idle h \<Longrightarrow> stop env h = (h, [])"
  by (simp add: idle_def stop_def stopAudioPlayback_none closeContext_def)

lemma stop_state:
  "fst (stop env h) = h\<lparr>sessionPromiseRef := None, microphoneStreamRef := None, scriptProcessorRef := None,
      inputAudioContextRef := None,
      audioSourcesRef := (if outputAudioContextRef h \<noteq> None then [] else audioSourcesRef h),
      nextStartTimeRef := (if outputAudioContextRef h \<noteq> None then 0 else nextStartTimeRef h),
      outputAudioContextRef := None, isLiveConnected := False, status := ''Ready'', error := None\<rparr>"
  by (cases "outputAudioContextRef h = None")
     (simp_all add: stop_def stopAudioPlayback_none stopAudioPlayback_some split_beta)

lemma stop_effects:
  "snd (stop env h) =
     (case sessionPromiseRef h of None \<Rightarrow> []
      | Some session \<Rightarrow> SessionClose session # catchConsoleError (sessionCloseRejects env))
     @ (case microphoneStreamRef h of None \<Rightarrow> [] | Some tracks \<Rightarrow> map TrackStop tracks)
     @ (case scriptProcessorRef h of None \<Rightarrow> [] | Some _ \<Rightarrow> [ProcessorDisconnect])
     @ closeContext InputCtx (inputAudioContextRef h) (inputCloseRejects env)
     @ (if outputAudioContextRef h \<noteq> None then map SourceStop (audioSourcesRef h) else [])
     @ closeContext OutputCtx (outputAudioContextRef h) (outputCloseRejects env)"
  by (cases "outputAudioContextRef h = None")
     (simp_all add: stop_def stopAudioPlayback_none stopAudioPlayback_some split_beta)

lemma idle_stop: "idle (fst (stop env h))"
  by (simp add: stop_state idle_def)



lemma processCall_unrecognized:
  assumes "fc_name fc \<noteq> ''generateImage''" "fc_name fc \<noteq> ''googleSearch''" "fc_name fc \<noteq> ''youtubeSearch''"
  shows "processCall env fc h =
      (h, case sessionPromiseRef h of None \<Rightarrow> []
          | Some session \<Rightarrow> [SendToolResponse session (fc_id fc) (fc_name fc) None])"
  using assms by (simp add: processCall_def tryToolCall_def)

lemma processCall_image_throws:
  assumes "fc_name fc = ''generateImage''" "aiRef h \<noteq> None"
    "generateImages env (fc_id fc) (map_of (fc_args fc) ''prompt'') = Inl e"
  shows "processCall env fc h =
      (h\<lparr>error := Some (''Error with tool: '' @ errorMessageOf e),
         messages := messages h @ [toolErrorMessage (now env) (errorMessageOf e)]\<rparr>,
       ConsoleError e # (case sessionPromiseRef h of None \<Rightarrow> []
          | Some session \<Rightarrow> [SendToolResponse session (fc_id fc) (fc_name fc)
               (Some (Failure (''Tool execution failed: '' @ errorMessageOf e)))]))"
  using assms by (simp add: processCall_def tryToolCall_def addMessage_def Let_def split: option.split)

lemma processCall_search:
  assumes "fc_name fc = ''googleSearch''" "aiRef h \<noteq> None"
    "generateContent env (fc_id fc) (map_of (fc_args fc) ''query'') = Inr response"
  shows "processCall env fc h =
      (let text = map_option trim (response_text response);
           sources = groundedSources (groundingChunks response);
           ps = (if \<not> truthy text \<and> sources = [] then [TextPart searchFallbackText]
                 else (if truthy text then [TextPart (the text)] else [])
                      @ (if sources \<noteq> [] then [SourcePart sources] else []));
           result = (if truthy text then the text
                     else if sources \<noteq> [] then ''I found some information for you.''
                     else searchFallbackText)
       in (h\<lparr>messages := messages h @ [modelMessage (now env) ps]\<rparr>,
           case sessionPromiseRef h of None \<Rightarrow> []
           | Some session \<Rightarrow> [SendToolResponse session (fc_id fc) (fc_name fc) (Some (Result result))]))"
  using assms
  by (cases "map_option trim (response_text response)")
     (auto simp add: processCall_def tryToolCall_def Let_def split: option.splits)

lemma tryToolCall_effects:
  "\<forall>fx \<in> set (snd (tryToolCall env h fc)). \<exists>e. fx = ConsoleError e"
  by (auto simp: tryToolCall_def fetchYouTubeVideos_def Let_def split_beta
           split: sum.splits list.splits http_result.splits if_splits)

lemma tryToolCall_parts:
  "tryToolCall env h fc = (Inr (appended, response), fx) \<Longrightarrow> partsNonEmpty appended"
  by (auto simp: tryToolCall_def fetchYouTubeVideos_def Let_def split_beta partsNonEmpty_def modelMessage_def
           split: sum.splits list.splits http_result.splits if_splits option.splits)

lemma processCall_frame:
  "status (fst (processCall env fc h)) = status h"
  "isLiveConnected (fst (processCall env fc h)) = isLiveConnected h"
  "isMicMuted (fst (processCall env fc h)) = isMicMuted h"
  "aiRef (fst (processCall env fc h)) = aiRef h"
  "sessionPromiseRef (fst (processCall env fc h)) = sessionPromiseRef h"
  "inputAudioContextRef (fst (processCall env fc h)) = inputAudioContextRef h"
  "outputAudioContextRef (fst (processCall env fc h)) = outputAudioContextRef h"
  "microphoneStreamRef (fst (processCall env fc h)) = microphoneStreamRef h"
  "scriptProcessorRef (fst (processCall env fc h)) = scriptProcessorRef h"
  "nextStartTimeRef (fst (processCall env fc h)) = nextStartTimeRef h"
  "audioSourcesRef (fst (processCall env fc h)) = audioSourcesRef h"
  "currentInputTranscriptionRef (fst (processCall env fc h)) = currentInputTranscriptionRef h"
  "currentOutputTranscriptionRef (fst (processCall env fc h)) = currentOutputTranscriptionRef h"
  by (simp_all add: processCall_def addMessage_def split_beta Let_def split: sum.split)

lemma processCall_messages:
  "prefix (messages h) (messages (fst (processCall env fc h)))"
  by (simp add: processCall_def addMessage_def split_beta Let_def split: sum.split)

lemma processCall_parts:
  "partsNonEmpty (messages h) \<Longrightarrow> partsNonEmpty (messages (fst (processCall env fc h)))"
  using tryToolCall_parts [of env h fc]
  by (cases "tryToolCall env h fc")
     (auto simp: processCall_def addMessage_def split_beta Let_def partsNonEmpty_def
         toolErrorMessage_def modelMessage_def split: sum.split)

lemma processCall_effects:
  "\<forall>fx \<in> set (snd (processCall env fc h)).
     \<not> sessionEffect fx \<and> \<not> playbackEffect fx \<and> \<not> rejectionEffect fx"
  using tryToolCall_effects [of env h fc]
  by (auto simp: processCall_def addMessage_def split_beta Let_def split: sum.splits option.splits)

lemma processCalls_frame:
  "status (fst (processCalls env fcs h)) = status h"
  "isLiveConnected (fst (processCalls env fcs h)) = isLiveConnected h"
  "isMicMuted (fst (processCalls env fcs h)) = isMicMuted h"
  "aiRef (fst (processCalls env fcs h)) = aiRef h"
  "sessionPromiseRef (fst (processCalls env fcs h)) = sessionPromiseRef h"
  "inputAudioContextRef (fst (processCalls env fcs h)) = inputAudioContextRef h"
  "outputAudioContextRef (fst (processCalls env fcs h)) = outputAudioContextRef h"
  "microphoneStreamRef (fst (processCalls env fcs h)) = microphoneStreamRef h"
  "scriptProcessorRef (fst (processCalls env fcs h)) = scriptProcessorRef h"
  "nextStartTimeRef (fst (processCalls env fcs h)) = nextStartTimeRef h"
  "audioSourcesRef (fst (processCalls env fcs h)) = audioSourcesRef h"
  "currentInputTranscriptionRef (fst (processCalls env fcs h)) = currentInputTranscriptionRef h"
  "currentOutputTranscriptionRef (fst (processCalls env fcs h)) = currentOutputTranscriptionRef h"
  by (induction fcs arbitrary: h; simp add: split_beta processCall_frame)+

lemma processCalls_messages:
  "prefix (messages h) (messages (fst (processCalls env fcs h)))"
proof (induction fcs arbitrary: h)
  case Nil
  show ?case by simp
next
  case (Cons fc fcs)
  have "prefix (messages h) (messages (fst (processCall env fc h)))"
    by (rule processCall_messages)
  also have "prefix \<dots> (messages (fst (processCalls env fcs (fst (processCall env fc h)))))"
    by (rule Cons.IH)
  finally show ?case by (simp add: split_beta)
qed

lemma processCalls_parts:
  "partsNonEmpty (messages h) \<Longrightarrow> partsNonEmpty (messages (fst (processCalls env fcs h)))"
  by (induction fcs arbitrary: h) (simp_all add: split_beta processCall_parts)

lemma processCalls_effects:
  "\<forall>fx \<in> set (snd (processCalls env fcs h)).
     \<not> sessionEffect fx \<and> \<not> playbackEffect fx \<and> \<not> rejectionEffect fx"
  by (induction fcs arbitrary: h) (auto simp: split_beta dest: processCall_effects [rule_format])





lemma threw_Nil: "\<not> threw []"
  by (simp add: threw_def)


lemma threw_iff: "threw fx \<longleftrightarrow> (\<exists>x \<in> set fx. rejectionEffect x)"
  by (simp add: threw_def list_ex_iff)


lemma accumulateTranscription_frame:
  "status (accumulateTranscription m h) = status h"
  "error (accumulateTranscription m h) = error h"
  "messages (accumulateTranscription m h) = messages h"
  "isLiveConnected (accumulateTranscription m h) = isLiveConnected h"
  "isMicMuted (accumulateTranscription m h) = isMicMuted h"
  "aiRef (accumulateTranscription m h) = aiRef h"
  "sessionPromiseRef (accumulateTranscription m h) = sessionPromiseRef h"
  "inputAudioContextRef (accumulateTranscription m h) = inputAudioContextRef h"
  "outputAudioContextRef (accumulateTranscription m h) = outputAudioContextRef h"
  "microphoneStreamRef (accumulateTranscription m h) = microphoneStreamRef h"
  "scriptProcessorRef (accumulateTranscription m h) = scriptProcessorRef h"
  "nextStartTimeRef (accumulateTranscription m h) = nextStartTimeRef h"
  "audioSourcesRef (accumulateTranscription m h) = audioSourcesRef h"
  by (simp_all add: accumulateTranscription_def split: option.split)

lemma handleToolCall_frame:
  "isLiveConnected (fst (handleToolCall env m h)) = isLiveConnected h"
  "isMicMuted (fst (handleToolCall env m h)) = isMicMuted h"
  "aiRef (fst (handleToolCall env m h)) = aiRef h"
  "sessionPromiseRef (fst (handleToolCall env m h)) = sessionPromiseRef h"
  "inputAudioContextRef (fst (handleToolCall env m h)) = inputAudioContextRef h"
  "outputAudioContextRef (fst (handleToolCall env m h)) = outputAudioContextRef h"
  "microphoneStreamRef (fst (handleToolCall env m h)) = microphoneStreamRef h"
  "scriptProcessorRef (fst (handleToolCall env m h)) = scriptProcessorRef h"
  "nextStartTimeRef (fst (handleToolCall env m h)) = nextStartTimeRef h"
  "audioSourcesRef (fst (handleToolCall env m h)) = audioSourcesRef h"
  "currentInputTranscriptionRef (fst (handleToolCall env m h)) = currentInputTranscriptionRef h"
  "currentOutputTranscriptionRef (fst (handleToolCall env m h)) = currentOutputTranscriptionRef h"
  by (simp_all add: handleToolCall_def processCalls_frame addMessage_def Let_def split: option.split)

lemma handleToolCall_status:
  "status (fst (handleToolCall env m h)) = (if toolCall m = None then status h else ''Thinking...'')"
  by (simp add: handleToolCall_def processCalls_frame Let_def split: option.split)

lemma handleToolCall_none:
  "toolCall m = None \<Longrightarrow> handleToolCall env m h = (h, [])"
  by (simp add: handleToolCall_def)

lemma handleToolCall_calls:
  "toolCall m = Some batch \<Longrightarrow> functionCalls batch = Some calls \<Longrightarrow>
   handleToolCall env m h =
     processCalls env calls ((addMessage (handoffMessage (now env)) h)\<lparr>status := ''Thinking...''\<rparr>)"
  by (simp add: handleToolCall_def)

lemma handleToolCall_bare:
  "toolCall m = Some batch \<Longrightarrow> functionCalls batch = None \<Longrightarrow>
   handleToolCall env m h =
     ((addMessage (handoffMessage (now env)) h)\<lparr>status := ''Thinking...''\<rparr>,
      [UnhandledRejection (ErrorObject ''message.toolCall.functionCalls is not iterable'')])"
  by (simp add: handleToolCall_def)


lemma handleToolCall_handoff:
  "toolCall m = Some batch \<Longrightarrow>
   prefix (messages h @ [handoffMessage (now env)]) (messages (fst (handleToolCall env m h)))"
proof (cases "functionCalls batch")
  case None
  assume "toolCall m = Some batch"
  with None show ?thesis by (simp add: handleToolCall_bare addMessage_def)
next
  case (Some calls)
  assume "toolCall m = Some batch"
  with Some show ?thesis
    using processCalls_messages [of "(addMessage (handoffMessage (now env)) h)\<lparr>status := ''Thinking...''\<rparr>" env calls]
    by (simp add: handleToolCall_calls addMessage_def)
qed

lemma handleToolCall_messages:
  "prefix (messages h) (messages (fst (handleToolCall env m h)))"
proof (cases "toolCall m")
  case None
  then show ?thesis by (simp add: handleToolCall_def)
next
  case (Some batch)
  have "prefix (messages h) (messages h @ [handoffMessage (now env)])" by simp
  also have "prefix \<dots> (messages (fst (handleToolCall env m h)))"
    using Some by (rule handleToolCall_handoff)
  finally show ?thesis .
qed

lemma handleToolCall_parts:
  assumes "partsNonEmpty (messages h)"
  shows "partsNonEmpty (messages (fst (handleToolCall env m h)))"
proof (cases "toolCall m")
  case None
  with assms show ?thesis by (simp add: handleToolCall_def)
next
  case (Some batch)
  let ?h1 = "(addMessage (handoffMessage (now env)) h)\<lparr>status := ''Thinking...''\<rparr>"
  have h1: "partsNonEmpty (messages ?h1)"
    using assms by (simp add: addMessage_def partsNonEmpty_def handoffMessage_def)
  show ?thesis
  proof (cases "functionCalls batch")
    case None
    with Some h1 show ?thesis by (simp add: handleToolCall_bare)
  next
    case (Some calls)
    with \<open>toolCall m = Some batch\<close> processCalls_parts [OF h1, of env calls]
    show ?thesis by (simp add: handleToolCall_calls)
  qed
qed

lemma handleToolCall_effects:
  "\<forall>fx \<in> set (snd (handleToolCall env m h)). \<not> sessionEffect fx \<and> \<not> playbackEffect fx"
  using processCalls_effects by (simp add: handleToolCall_def Let_def split: option.split)

lemma handleTurnComplete_frame:
  "error (handleTurnComplete img env m h) = error h"
  "isLiveConnected (handleTurnComplete img env m h) = isLiveConnected h"
  "isMicMuted (handleTurnComplete img env m h) = isMicMuted h"
  "aiRef (handleTurnComplete img env m h) = aiRef h"
  "sessionPromiseRef (handleTurnComplete img env m h) = sessionPromiseRef h"
  "inputAudioContextRef (handleTurnComplete img env m h) = inputAudioContextRef h"
  "outputAudioContextRef (handleTurnComplete img env m h) = outputAudioContextRef h"
  "microphoneStreamRef (handleTurnComplete img env m h) = microphoneStreamRef h"
  "scriptProcessorRef (handleTurnComplete img env m h) = scriptProcessorRef h"
  "nextStartTimeRef (handleTurnComplete img env m h) = nextStartTimeRef h"
  "audioSourcesRef (handleTurnComplete img env m h) = audioSourcesRef h"
  by (simp_all add: handleTurnComplete_def addMessage_def Let_def)

lemma handleTurnComplete_not:
  "\<not> turnCompleted m \<Longrightarrow> handleTurnComplete img env m h = h"
  by (simp add: handleTurnComplete_def)

lemma handleTurnComplete_messages:
  "prefix (messages h) (messages (handleTurnComplete img env m h))"
  by (simp add: handleTurnComplete_def addMessage_def Let_def)

lemma handleTurnComplete_parts:
  "partsNonEmpty (messages h) \<Longrightarrow> partsNonEmpty (messages (handleTurnComplete img env m h))"
  by (simp add: handleTurnComplete_def addMessage_def Let_def partsNonEmpty_def modelMessage_def
        split: option.split)

lemma handleAudio_frame:
  "error (fst (handleAudio env m h)) = error h"
  "messages (fst (handleAudio env m h)) = messages h"
  "isLiveConnected (fst (handleAudio env m h)) = isLiveConnected h"
  "isMicMuted (fst (handleAudio env m h)) = isMicMuted h"
  "aiRef (fst (handleAudio env m h)) = aiRef h"
  "sessionPromiseRef (fst (handleAudio env m h)) = sessionPromiseRef h"
  "inputAudioContextRef (fst (handleAudio env m h)) = inputAudioContextRef h"
  "outputAudioContextRef (fst (handleAudio env m h)) = outputAudioContextRef h"
  "microphoneStreamRef (fst (handleAudio env m h)) = microphoneStreamRef h"
  "scriptProcessorRef (fst (handleAudio env m h)) = scriptProcessorRef h"
  "currentInputTranscriptionRef (fst (handleAudio env m h)) = currentInputTranscriptionRef h"
  "currentOutputTranscriptionRef (fst (handleAudio env m h)) = currentOutputTranscriptionRef h"
  by (simp_all add: handleAudio_def Let_def split: sum.split option.split)

lemma handleAudio_effects:
  "\<forall>fx \<in> set (snd (handleAudio env m h)). \<not> sessionEffect fx"
  by (simp add: handleAudio_def Let_def split: sum.split option.split)

lemma handleInterrupted_frame:
  "status (fst (handleInterrupted m h)) = status h"
  "error (fst (handleInterrupted m h)) = error h"
  "messages (fst (handleInterrupted m h)) = messages h"
  "isLiveConnected (fst (handleInterrupted m h)) = isLiveConnected h"
  "isMicMuted (fst (handleInterrupted m h)) = isMicMuted h"
  "aiRef (fst (handleInterrupted m h)) = aiRef h"
  "sessionPromiseRef (fst (handleInterrupted m h)) = sessionPromiseRef h"
  "inputAudioContextRef (fst (handleInterrupted m h)) = inputAudioContextRef h"
  "outputAudioContextRef (fst (handleInterrupted m h)) = outputAudioContextRef h"
  "microphoneStreamRef (fst (handleInterrupted m h)) = microphoneStreamRef h"
  "scriptProcessorRef (fst (handleInterrupted m h)) = scriptProcessorRef h"
  "currentInputTranscriptionRef (fst (handleInterrupted m h)) = currentInputTranscriptionRef h"
  "currentOutputTranscriptionRef (fst (handleInterrupted m h)) = currentOutputTranscriptionRef h"
  by (simp_all add: handleInterrupted_def stopAudioPlayback_def split_beta)

lemma handleInterrupted_effects:
  "\<forall>fx \<in> set (snd (handleInterrupted m h)). \<not> sessionEffect fx \<and> \<not> rejectionEffect fx"
  by (auto simp: handleInterrupted_def stopAudioPlayback_def split_beta stopSources_effects)


lemmas onmessage_phases =
  accumulateTranscription_frame handleToolCall_frame handleTurnComplete_frame
  handleAudio_frame handleInterrupted_frame

text \<open>The handler, block by block: where it stops and what it has done by then.\<close>

lemma onmessage_stops_at_toolCall:
  "threw (snd (handleToolCall env m (accumulateTranscription m h))) \<Longrightarrow>
   onmessage img env m h = handleToolCall env m (accumulateTranscription m h)"
  by (simp add: onmessage_def split_beta Let_def)

lemma onmessage_stops_at_audio:
  "\<not> threw (snd (handleToolCall env m (accumulateTranscription m h))) \<Longrightarrow>
   threw (snd (handleAudio env m (beforeAudio img env m h))) \<Longrightarrow>
   onmessage img env m h =
     (fst (handleAudio env m (beforeAudio img env m h)),
      snd (handleToolCall env m (accumulateTranscription m h))
      @ snd (handleAudio env m (beforeAudio img env m h)))"
  by (simp add: onmessage_def split_beta Let_def beforeAudio_def)

lemma onmessage_runs_to_end:
  "\<not> threw (snd (handleToolCall env m (accumulateTranscription m h))) \<Longrightarrow>
   \<not> threw (snd (handleAudio env m (beforeAudio img env m h))) \<Longrightarrow>
   onmessage img env m h =
     (fst (handleInterrupted m (fst (handleAudio env m (beforeAudio img env m h)))),
      snd (handleToolCall env m (accumulateTranscription m h))
      @ snd (handleAudio env m (beforeAudio img env m h))
      @ snd (handleInterrupted m (fst (handleAudio env m (beforeAudio img env m h)))))"
  by (simp add: onmessage_def split_beta Let_def beforeAudio_def)

lemma onmessage_cases [case_names toolCall audio ended]:
  assumes "\<lbrakk>threw (snd (handleToolCall env m (accumulateTranscription m h)));
            onmessage img env m h = handleToolCall env m (accumulateTranscription m h)\<rbrakk> \<Longrightarrow> P"
    and "\<lbrakk>\<not> threw (snd (handleToolCall env m (accumulateTranscription m h)));
          threw (snd (handleAudio env m (beforeAudio img env m h)));
          onmessage img env m h =
            (fst (handleAudio env m (beforeAudio img env m h)),
             snd (handleToolCall env m (accumulateTranscription m h))
             @ snd (handleAudio env m (beforeAudio img env m h)))\<rbrakk> \<Longrightarrow> P"
    and "\<lbrakk>\<not> threw (snd (handleToolCall env m (accumulateTranscription m h)));
          \<not> threw (snd (handleAudio env m (beforeAudio img env m h)));
          onmessage img env m h =
            (fst (handleInterrupted m (fst (handleAudio env m (beforeAudio img env m h)))),
             snd (handleToolCall env m (accumulateTranscription m h))
             @ snd (handleAudio env m (beforeAudio img env m h))
             @ snd (handleInterrupted m (fst (handleAudio env m (beforeAudio img env m h)))))\<rbrakk> \<Longrightarrow> P"
  shows P
  using assms onmessage_stops_at_toolCall [of env m h img] onmessage_stops_at_audio [of env m h img]
    onmessage_runs_to_end [of env m h img]
  by blast

lemma beforeAudio_frame:
  "isLiveConnected (beforeAudio img env m h) = isLiveConnected h"
  "isMicMuted (beforeAudio img env m h) = isMicMuted h"
  "aiRef (beforeAudio img env m h) = aiRef h"
  "sessionPromiseRef (beforeAudio img env m h) = sessionPromiseRef h"
  "inputAudioContextRef (beforeAudio img env m h) = inputAudioContextRef h"
  "outputAudioContextRef (beforeAudio img env m h) = outputAudioContextRef h"
  "microphoneStreamRef (beforeAudio img env m h) = microphoneStreamRef h"
  "scriptProcessorRef (beforeAudio img env m h) = scriptProcessorRef h"
  "nextStartTimeRef (beforeAudio img env m h) = nextStartTimeRef h"
  "audioSourcesRef (beforeAudio img env m h) = audioSourcesRef h"
  by (simp_all add: beforeAudio_def onmessage_phases)

lemma onmessage_frame:
  "isLiveConnected (fst (onmessage img env m h)) = isLiveConnected h"
  "isMicMuted (fst (onmessage img env m h)) = isMicMuted h"
  "aiRef (fst (onmessage img env m h)) = aiRef h"
  "sessionPromiseRef (fst (onmessage img env m h)) = sessionPromiseRef h"
  "inputAudioContextRef (fst (onmessage img env m h)) = inputAudioContextRef h"
  "outputAudioContextRef (fst (onmessage img env m h)) = outputAudioContextRef h"
  "microphoneStreamRef (fst (onmessage img env m h)) = microphoneStreamRef h"
  "scriptProcessorRef (fst (onmessage img env m h)) = scriptProcessorRef h"
  by (cases rule: onmessage_cases [of env m h img]; simp add: onmessage_phases beforeAudio_frame)+

lemma onmessage_prefix:
  "prefix (messages h) (messages (fst (onmessage img env m h)))"
proof -
  have tool: "prefix (messages h) (messages (fst (handleToolCall env m (accumulateTranscription m h))))"
    using handleToolCall_messages [of "accumulateTranscription m h" env m]
    by (simp add: accumulateTranscription_frame)
  have "prefix (messages (fst (handleToolCall env m (accumulateTranscription m h))))
          (messages (beforeAudio img env m h))"
    unfolding beforeAudio_def by (rule handleTurnComplete_messages)
  with tool have before: "prefix (messages h) (messages (beforeAudio img env m h))"
    by (rule prefix_order.trans)
  show ?thesis
    by (cases rule: onmessage_cases [of env m h img]) (simp_all add: tool before onmessage_phases)
qed

lemma onmessage_handoff:
  assumes "toolCall m = Some batch"
  shows "prefix (messages h @ [handoffMessage (now env)]) (messages (fst (onmessage img env m h)))"
proof -
  have tool: "prefix (messages h @ [handoffMessage (now env)])
      (messages (fst (handleToolCall env m (accumulateTranscription m h))))"
    using handleToolCall_handoff [OF assms, of "accumulateTranscription m h" env]
    by (simp add: accumulateTranscription_frame)
  have "prefix (messages (fst (handleToolCall env m (accumulateTranscription m h))))
          (messages (beforeAudio img env m h))"
    unfolding beforeAudio_def by (rule handleTurnComplete_messages)
  with tool have before: "prefix (messages h @ [handoffMessage (now env)]) (messages (beforeAudio img env m h))"
    by (rule prefix_order.trans)
  show ?thesis
    by (cases rule: onmessage_cases [of env m h img]) (simp_all add: tool before onmessage_phases)
qed

lemma onmessage_parts:
  assumes "partsNonEmpty (messages h)"
  shows "partsNonEmpty (messages (fst (onmessage img env m h)))"
proof -
  have tool: "partsNonEmpty (messages (fst (handleToolCall env m (accumulateTranscription m h))))"
    using assms by (intro handleToolCall_parts) (simp add: accumulateTranscription_frame)
  then have before: "partsNonEmpty (messages (beforeAudio img env m h))"
    unfolding beforeAudio_def by (rule handleTurnComplete_parts)
  show ?thesis
    by (cases rule: onmessage_cases [of env m h img]) (simp_all add: tool before onmessage_phases)
qed

lemma onmessage_effects:
  "\<forall>fx \<in> set (snd (onmessage img env m h)). \<not> sessionEffect fx"
  using handleToolCall_effects [of env m "accumulateTranscription m h"]
    handleAudio_effects [of env m "beforeAudio img env m h"]
    handleInterrupted_effects [of m "fst (handleAudio env m (beforeAudio img env m h))"]
  by (cases rule: onmessage_cases [of env m h img]) auto

lemma onmessage_toolCall_only:
  "serverContent m = None \<Longrightarrow> onmessage img env m h = handleToolCall env m h"
  by (simp add: onmessage_def accumulateTranscription_def handleTurnComplete_def turnCompleted_def
        handleAudio_def base64Audio_def handleInterrupted_def wasInterrupted_def split_beta threw_Nil)


lemma run_openSession: "hookState (run openSession world0) = listening"
  by (simp add: openSession_def world0_def initial_def startOk_def micGranted_def start_def
        onopen_def deliver_def statusOf_def markSession_def listening_def)

lemma sessions_openSession: "sessions (run openSession world0) = [(SessionOpen, None)]"
  by (simp add: openSession_def world0_def initial_def startOk_def micGranted_def start_def
        onopen_def deliver_def statusOf_def markSession_def)

subsection \<open>Runs of the hook in its environment\<close>


lemma run_snoc: "run (evs @ [e]) w = step e (run evs w)"
  by (induction evs arbitrary: w) simp_all

lemma run_append: "run (evs @ evs') w = run evs' (run evs w)"
  by (induction evs arbitrary: w) simp_all

lemma hookState_deliver: "hookState (deliver img r w) = fst r"
  by (simp add: deliver_def)



lemma start_parts:
  "partsNonEmpty (messages (fst (start env history topic language img sid h))) = 
     (isLiveConnected h \<longrightarrow> partsNonEmpty (messages h))"
  by (simp add: start_def startFailed_def addMessage_def partsNonEmpty_def Let_def
        split: option.split)

lemma stop_messages: "messages (fst (stop env h)) = messages h"
  by (simp add: stop_state)

lemma onopen_messages: "messages (fst (onopen env h)) = messages h"
  by (simp add: onopen_def microphoneFailed_def stop_state Let_def split: sum.split option.split)

lemma onerror_messages: "messages (fst (onerror env msg h)) = messages h"
  by (simp add: onerror_def split_beta stop_state)

lemma step_parts:
  "partsNonEmpty (messages (hookState w)) \<Longrightarrow> partsNonEmpty (messages (hookState (step e w)))"
  by (cases e)
     (simp_all add: hookState_deliver start_parts stop_messages onopen_messages onerror_messages
        onclose_def onmessage_parts onended_def Let_def toggleMicMute_def clearSessionMessages_def
        partsNonEmpty_def [of "[]"])

lemma run_parts: "partsNonEmpty (messages (hookState (run evs world0)))"
  by (induction evs rule: rev_induct)
     (simp_all add: run_snoc step_parts, simp add: world0_def initial_def partsNonEmpty_def)

subsection \<open>Playback\<close>






lemma handleAudio_scheduled:
  "carriesAudio m \<Longrightarrow> outputAudioContextRef h \<noteq> None \<Longrightarrow> decodeThrows env = None \<Longrightarrow>
   handleAudio env m h =
     (h\<lparr>status := ''Speaking...'',
        nextStartTimeRef := max (nextStartTimeRef h) (currentTime env) + bufferDuration env,
        audioSourcesRef := (if newSource env \<in> set (audioSourcesRef h) then audioSourcesRef h
                            else audioSourcesRef h @ [newSource env])\<rparr>,
      [SourceStart (newSource env) (max (nextStartTimeRef h) (currentTime env))])"
  by (auto simp: handleAudio_def carriesAudio_def Let_def split: sum.splits)

lemma handleAudio_skipped:
  "\<not> threw (snd (handleAudio env m h)) \<Longrightarrow>
   \<not> (carriesAudio m \<and> outputAudioContextRef h \<noteq> None) \<Longrightarrow> handleAudio env m h = (h, [])"
  by (auto simp: handleAudio_def carriesAudio_def Let_def threw_def split: sum.splits option.splits)









lemma scheduledStarts_stops: "scheduledStarts (map SourceStop xs) = []"
  by (induction xs) (simp_all add: scheduledStarts_def)













lemma image_call_fails:
  "fst (onmessage None sampleEnv (toolCallMessage [imageCall]) listening) =
     listening\<lparr>messages := [handoffMessage 1, toolErrorMessage 1 ''quota exceeded''],
       status := ''Thinking...'', error := Some ''Error with tool: quota exceeded''\<rparr>"
  by (simp add: toolCallMessage_def imageCall_def sampleEnv_def listening_def
        onmessage_toolCall_only handleToolCall_def processCall_def tryToolCall_def addMessage_def
        Let_def)

lemma start_connected: "isLiveConnected h \<Longrightarrow> start env history topic language img sid h = (h, [])"
  by (simp add: start_def)

section \<open>One session at a time\<close>

text \<open>
  Claim C1 against the code. \<^verbatim>\<open>start\<close> is guarded by the connected flag, which is set
  when the session opens, not when it is made. A second \<^verbatim>\<open>start\<close> before the first
  session has opened passes the guard and makes a second session; both open, and two
  sessions are connected at the same instant. The second \<^verbatim>\<open>start\<close> has overwritten the
  slot, so a \<^verbatim>\<open>stop\<close> reaches the second session only: after it the flag says that
  nothing is connected while the first session still is.
\<close>

theorem double_start_opens_two_sessions:
  "connectedSessions (run startTwice world0) = [0, 1]
   \<and> connectedSessions (run (startTwice @ [Stop noRejections]) world0) = [0]
   \<and> \<not> isLiveConnected (hookState (run (startTwice @ [Stop noRejections]) world0))"
  by (simp add: startTwice_def world0_def initial_def startOk_def micGranted_def start_def
        onopen_def deliver_def statusOf_def markSession_def connectedSessions_def
        noRejections_def stop_def stopAudioPlayback_def closeContext_def catchConsoleError_def)

text \<open>
  What the guard does give: calling \<^verbatim>\<open>start\<close> while the connected flag is set returns
  at once. The state of the hook (status, error, flag, message list and all the rest)
  is the one before, and nothing is done to the world.
\<close>

theorem start_while_connected:
  assumes "isLiveConnected (hookState w)"
  shows "start env history topic language img sid (hookState w) = (hookState w, [])
     \<and> step (Start env history topic language img) w = w"
  using assms by (simp add: start_connected deliver_def)

theorem start_while_connected_witness:
  "isLiveConnected (hookState (run openSession world0))
   \<and> step (Start startOk [] General EnUS None) (run openSession world0) = run openSession world0"
  using start_while_connected [of "run openSession world0" startOk "[]" General EnUS None 1]
  by (simp add: run_openSession listening_def)

section \<open>Teardown is idempotent\<close>

text \<open>
  Claim C2. \<^verbatim>\<open>stop\<close> is idempotent. In every idle state a call of \<^verbatim>\<open>stop\<close> returns
  the state it was given and does nothing to the world, and a second \<^verbatim>\<open>stop\<close> right
  after a first one, from any state and whatever failed in either, does the same.
  In every state, a rejection while the session or an audio context is closed is
  swallowed: the state that \<^verbatim>\<open>stop\<close> leaves is the one it leaves when nothing rejects,
  and so is everything it does, the console entries apart. It is logged: the console
  entries of \<^verbatim>\<open>stop\<close> are the rejections that happened, each once, and nothing else
  (as multisets: the order in which the \<^verbatim>\<open>catch\<close> handlers run is not the source's to
  fix). And it does not reach the caller: \<^verbatim>\<open>stop\<close> has no \<^verbatim>\<open>throw\<close>, every promise it
  makes ends in \<^verbatim>\<open>.catch(console.error)\<close>, and so no rejection is left unhandled.
\<close>

theorem stop_idempotent:
  "(idle h \<longrightarrow> stop env h = (h, []))
   \<and> stop env' (fst (stop env h)) = (fst (stop env h), [])
   \<and> fst (stop env h) = fst (stop noRejections h)
   \<and> filter (\<lambda>fx. \<not> consoleEffect fx) (snd (stop env h)) = snd (stop noRejections h)
   \<and> mset (filter consoleEffect (snd (stop env h))) = mset (map ConsoleError (rejections env h))
   \<and> \<not> threw (snd (stop env h))"
proof -
  have swallowed: "filter (\<lambda>fx. \<not> consoleEffect fx) (snd (stop env h)) = snd (stop noRejections h)"
    by (simp add: stop_effects noRejections_def closeContext_def catchConsoleError_def
          filter_map comp_def split: option.split)
  have logged: "filter consoleEffect (snd (stop env h)) = map ConsoleError (rejections env h)"
    by (simp add: stop_effects closeContext_def catchConsoleError_def rejections_def rejected_def
          openContext_def filter_map comp_def split: option.split)
  have "filter rejectionEffect (snd (stop env h)) = []"
    by (simp add: stop_effects closeContext_def catchConsoleError_def filter_map comp_def
          split: option.split)
  then have handled: "\<not> threw (snd (stop env h))"
    by (simp add: threw_iff filter_empty_conv)
  show ?thesis
    using stop_idle [of h env] stop_idle [OF idle_stop, of env' env h] swallowed handled
    by (simp add: stop_state logged)
qed

theorem stop_idempotent_witness:
  "idle initial \<and> stop noRejections initial = (initial, [])
   \<and> rejections closeThrows listening = [ErrorObject ''socket is gone'']
   \<and> filter consoleEffect (snd (stop closeThrows listening)) = [ConsoleError (ErrorObject ''socket is gone'')]"
proof -
  have "filter consoleEffect (snd (stop closeThrows listening)) = [ConsoleError (ErrorObject ''socket is gone'')]"
    by (simp add: stop_effects closeThrows_def listening_def closeContext_def catchConsoleError_def)
  moreover have "rejections closeThrows listening = [ErrorObject ''socket is gone'']"
    by (simp add: rejections_def rejected_def openContext_def closeThrows_def listening_def)
  ultimately show ?thesis
    using stop_idempotent [where h = initial and env = noRejections]
    by (simp add: idle_def initial_def)
qed

section \<open>A failing tool call\<close>

text \<open>
  Claim C5. A tool-call batch with one \<^verbatim>\<open>generateImage\<close> call whose invocation throws,
  received while a session is connected: after the notice that every batch starts with,
  exactly one message is appended, the model message with the error text; exactly one
  tool response is sent on the session, and it is the failure; the connected flag and
  the session slot are as before, and nothing is done to a session (no close, no
  connect). The first conjunct gives the whole result of the handler. The last three
  say that no message whatever, with any batch and any outcome of its calls, makes the
  handler close a session or change the connected flag or the slot.
\<close>

theorem image_failure_keeps_session:
  assumes "serverContent m = None" and "toolCall m = Some \<lparr> functionCalls = Some [fc] \<rparr>"
    and "fc_name fc = ''generateImage''"
    and "generateImages env (fc_id fc) (map_of (fc_args fc) ''prompt'') = Inl e"
    and "aiRef h \<noteq> None" and "sessionPromiseRef h = Some session" and "isLiveConnected h"
  shows "onmessage img env m h =
           (h\<lparr>messages := messages h @ [handoffMessage (now env),
                                          toolErrorMessage (now env) (errorMessageOf e)],
              status := ''Thinking...'',
              error := Some (''Error with tool: '' @ errorMessageOf e)\<rparr>,
            [ConsoleError e,
             SendToolResponse session (fc_id fc) ''generateImage''
               (Some (Failure (''Tool execution failed: '' @ errorMessageOf e)))])
         \<and> length (filter (\<lambda>msg. TextPart (''An error occurred: '' @ errorMessageOf e) \<in> set (parts msg))
               (drop (length (messages h)) (messages (fst (onmessage img env m h))))) = 1
         \<and> length (filter toolResponseEffect (snd (onmessage img env m h))) = 1
         \<and> isLiveConnected (fst (onmessage img env m h))
         \<and> sessionPromiseRef (fst (onmessage img env m h)) = Some session
         \<and> (\<forall>fx \<in> set (snd (onmessage img env m h)). \<not> sessionEffect fx)
         \<and> (\<forall>fx \<in> set (snd (onmessage img' env' m' h')). \<not> sessionEffect fx)
         \<and> isLiveConnected (fst (onmessage img' env' m' h')) = isLiveConnected h'
         \<and> sessionPromiseRef (fst (onmessage img' env' m' h')) = sessionPromiseRef h'"
proof -
  let ?h1 = "(addMessage (handoffMessage (now env)) h)\<lparr>status := ''Thinking...''\<rparr>"
  have call: "processCall env fc ?h1 =
      (?h1\<lparr>error := Some (''Error with tool: '' @ errorMessageOf e),
           messages := messages ?h1 @ [toolErrorMessage (now env) (errorMessageOf e)]\<rparr>,
       ConsoleError e # (case sessionPromiseRef ?h1 of None \<Rightarrow> []
          | Some session \<Rightarrow> [SendToolResponse session (fc_id fc) (fc_name fc)
               (Some (Failure (''Tool execution failed: '' @ errorMessageOf e)))]))"
    using assms by (intro processCall_image_throws) (simp_all add: addMessage_def)
  have eq: "onmessage img env m h =
           (h\<lparr>messages := messages h @ [handoffMessage (now env),
                                          toolErrorMessage (now env) (errorMessageOf e)],
              status := ''Thinking...'',
              error := Some (''Error with tool: '' @ errorMessageOf e)\<rparr>,
            [ConsoleError e,
             SendToolResponse session (fc_id fc) ''generateImage''
               (Some (Failure (''Tool execution failed: '' @ errorMessageOf e)))])"
    using assms by (simp add: onmessage_toolCall_only handleToolCall_def call) (simp add: addMessage_def)
  have "length (filter (\<lambda>msg. TextPart (''An error occurred: '' @ errorMessageOf e) \<in> set (parts msg))
               (drop (length (messages h)) (messages (fst (onmessage img env m h))))) = 1
         \<and> length (filter toolResponseEffect (snd (onmessage img env m h))) = 1
         \<and> isLiveConnected (fst (onmessage img env m h))
         \<and> sessionPromiseRef (fst (onmessage img env m h)) = Some session"
    unfolding eq using assms
    by (simp add: handoffMessage_def toolErrorMessage_def modelMessage_def handoffText_def)
  with eq onmessage_effects [of img env m h] onmessage_effects [of img' env' m' h']
  show ?thesis by (simp add: onmessage_frame)
qed

theorem image_failure_keeps_session_witness:
  "serverContent (toolCallMessage [imageCall]) = None
   \<and> toolCall (toolCallMessage [imageCall]) = Some \<lparr> functionCalls = Some [imageCall] \<rparr>
   \<and> generateImages sampleEnv (fc_id imageCall) (map_of (fc_args imageCall) ''prompt'')
       = Inl (ErrorObject ''quota exceeded'')
   \<and> isLiveConnected listening
   \<and> snd (onmessage None sampleEnv (toolCallMessage [imageCall]) listening)
       = [ConsoleError (ErrorObject ''quota exceeded''),
          SendToolResponse 0 ''call-1'' ''generateImage''
            (Some (Failure ''Tool execution failed: quota exceeded''))]
   \<and> isLiveConnected (fst (onmessage None sampleEnv (toolCallMessage [imageCall]) listening))"
  using image_failure_keeps_session [of "toolCallMessage [imageCall]" imageCall sampleEnv
      "ErrorObject ''quota exceeded''" listening 0 None]
  by (simp add: toolCallMessage_def imageCall_def sampleEnv_def listening_def)

section \<open>A call of a function the dispatcher does not know\<close>

text \<open>
  Claim C6, as stated, fails: for a function call whose name is none of
  \<^verbatim>\<open>generateImage\<close>, \<^verbatim>\<open>googleSearch\<close>, \<^verbatim>\<open>youtubeSearch\<close>, a tool response is sent on
  the session all the same. Here a session is started and opened, and a batch with the
  one call \<^verbatim>\<open>setTimer\<close> arrives: the response for it, with nothing in it, is among the
  effects.
\<close>

theorem unrecognized_call_counterexample:
  "SendToolResponse 0 ''call-3'' ''setTimer'' None
     \<in> set (trace (run (openSession @ [OnMessage 0 sampleEnv (toolCallMessage [timerCall])]) world0))"
  by (simp add: openSession_def world0_def initial_def startOk_def micGranted_def start_def
        onopen_def deliver_def statusOf_def markSession_def imageOf_def
        toolCallMessage_def timerCall_def onmessage_toolCall_only handleToolCall_def
        processCall_unrecognized addMessage_def)

text \<open>
  Claim C6, amended. For a function call whose name is none of the three, the
  \<^verbatim>\<open>try\<close> block appends no message and leaves \<^verbatim>\<open>functionResponse\<close> undefined, and the
  state of the hook is unchanged by the call; the send after the \<^verbatim>\<open>try\<close> block is
  unconditional, so when the slot holds a session, one tool response with the call's id
  and name and an undefined response is queued on it.
\<close>

theorem unrecognized_call:
  assumes "fc_name fc \<noteq> ''generateImage''" and "fc_name fc \<noteq> ''googleSearch''"
    and "fc_name fc \<noteq> ''youtubeSearch''"
  shows "tryToolCall env h fc = (Inr ([], None), [])
     \<and> processCall env fc h =
          (h, case sessionPromiseRef h of
                None \<Rightarrow> []
              | Some session \<Rightarrow> [SendToolResponse session (fc_id fc) (fc_name fc) None])"
  using assms processCall_unrecognized [of fc env h] by (simp add: tryToolCall_def)

theorem unrecognized_call_witness:
  "fc_name timerCall \<noteq> ''generateImage'' \<and> fc_name timerCall \<noteq> ''googleSearch''
   \<and> fc_name timerCall \<noteq> ''youtubeSearch''
   \<and> processCall sampleEnv timerCall listening
       = (listening, [SendToolResponse 0 ''call-3'' ''setTimer'' None])"
  using unrecognized_call [of timerCall sampleEnv listening]
  by (simp add: timerCall_def listening_def)

section \<open>The web search call\<close>

text \<open>
  Claim C7, as stated, fails in its last part: when the answer has no text but has
  citations, the function result sent to the session is neither the answer text nor the
  fallback text of the first part, but a third fixed text.
\<close>

theorem search_result_counterexample:
  "snd (processCall sampleEnv searchCall listening)
     = [SendToolResponse 0 ''call-2'' ''googleSearch'' (Some (Result ''I found some information for you.''))]
   \<and> map_option trim (response_text citedOnly) = None
   \<and> ''I found some information for you.'' \<noteq> searchFallbackText"
  by (simp add: processCall_def tryToolCall_def searchCall_def listening_def sampleEnv_def citedOnly_def
        groundedSources_def searchFallbackText_def)

text \<open>
  Claim C7, amended. For a \<^verbatim>\<open>googleSearch\<close> call that the capability answers (with the
  client present, as it is once \<^verbatim>\<open>start\<close> has passed its key check): the answer text is
  the trimmed text of the response, the citations are the web entries with a non-empty
  uri and title. When both are empty the fixed fallback text is appended as a model
  message; otherwise a model message with a text part (if the text is non-empty)
  followed by a sources part (if there are citations). The function result is the
  answer text when it is non-empty; without answer text it is
  \<^verbatim>\<open>I found some information for you.\<close> when there are citations and the fallback text
  when there are none.
\<close>

theorem google_search_result:
  assumes "fc_name fc = ''googleSearch''" and "aiRef h \<noteq> None"
    and "generateContent env (fc_id fc) (map_of (fc_args fc) ''query'') = Inr response"
  shows "let answer = orElse (map_option trim (response_text response)) [];
             sources = groundedSources (groundingChunks response)
         in processCall env fc h =
              (h\<lparr>messages := messages h @
                   [modelMessage (now env)
                      (if answer = [] \<and> sources = [] then [TextPart searchFallbackText]
                       else (if answer \<noteq> [] then [TextPart answer] else [])
                            @ (if sources \<noteq> [] then [SourcePart sources] else []))]\<rparr>,
               case sessionPromiseRef h of
                 None \<Rightarrow> []
               | Some session \<Rightarrow>
                   [SendToolResponse session (fc_id fc) ''googleSearch''
                      (Some (Result (if answer \<noteq> [] then answer
                                     else if sources \<noteq> [] then ''I found some information for you.''
                                     else searchFallbackText)))])"
  using assms processCall_search [of fc h env response]
  by (cases "map_option trim (response_text response)") (auto simp: Let_def split: option.splits)

theorem google_search_result_witness:
  "fc_name searchCall = ''googleSearch'' \<and> aiRef listening \<noteq> None
   \<and> generateContent sampleEnv (fc_id searchCall) (map_of (fc_args searchCall) ''query'') = Inr citedOnly
   \<and> processCall sampleEnv searchCall listening =
        (listening\<lparr>messages := [modelMessage 1 [SourcePart [(''https://example.org'', ''Example'')]]]\<rparr>,
         [SendToolResponse 0 ''call-2'' ''googleSearch'' (Some (Result ''I found some information for you.''))])"
  using google_search_result [of searchCall listening sampleEnv citedOnly]
  by (simp add: searchCall_def listening_def sampleEnv_def citedOnly_def groundedSources_def)

section \<open>The notice at the head of a tool-call batch\<close>

text \<open>
  Claim C10. For every message that carries a tool-call batch, whatever its function
  calls are and however they end, the model message with the fixed notice text is
  appended first: the loop over the calls starts from the state that already has it
  (and a batch without its list of calls makes the handler stop in that state), the
  message list after the handler starts with the old list followed by the notice, and
  so it is longer than before.
\<close>

theorem handoff_notice_first:
  assumes "toolCall m = Some batch"
  shows "prefix (messages h @ [handoffMessage (now env)]) (messages (fst (onmessage img env m h)))
     \<and> length (messages h) < length (messages (fst (onmessage img env m h)))
     \<and> (case functionCalls batch of
           Some calls \<Rightarrow>
             handleToolCall env m h =
               processCalls env calls ((addMessage (handoffMessage (now env)) h)\<lparr>status := ''Thinking...''\<rparr>)
         | None \<Rightarrow>
             fst (handleToolCall env m h) =
               (addMessage (handoffMessage (now env)) h)\<lparr>status := ''Thinking...''\<rparr>)
     \<and> speaker (handoffMessage (now env)) = Model
     \<and> parts (handoffMessage (now env)) =
         [TextPart ''Let me check with my partner AI for better assistance...'']"
proof -
  have p: "prefix (messages h @ [handoffMessage (now env)]) (messages (fst (onmessage img env m h)))"
    using assms by (rule onmessage_handoff)
  from prefix_length_le [OF p] have "length (messages h) < length (messages (fst (onmessage img env m h)))"
    by simp
  with p assms show ?thesis
    by (simp add: handleToolCall_def handoffMessage_def handoffText_def split: option.split)
qed

theorem handoff_notice_first_witness:
  "toolCall (toolCallMessage [timerCall]) = Some \<lparr> functionCalls = Some [timerCall] \<rparr>
   \<and> messages (fst (onmessage None sampleEnv (toolCallMessage [timerCall]) listening))
       = [handoffMessage 1]"
  using handoff_notice_first [of "toolCallMessage [timerCall]" "\<lparr> functionCalls = Some [timerCall] \<rparr>"
      listening sampleEnv None]
  by (simp add: toolCallMessage_def timerCall_def listening_def sampleEnv_def
        onmessage_toolCall_only handleToolCall_def processCall_unrecognized addMessage_def)

section \<open>Interruption\<close>




section \<open>The playback schedule\<close>



section \<open>The microphone is refused\<close>

text \<open>
  Claim C3 against the code. \<^verbatim>\<open>start([], 'general', 'en-US')\<close>, the session opens, and
  \<^verbatim>\<open>getUserMedia\<close> is refused. The \<^verbatim>\<open>catch\<close> block of \<^verbatim>\<open>onopen\<close> sets the error and
  then calls \<^verbatim>\<open>stop\<close>, which ends with \<^verbatim>\<open>setError(null)\<close>: the final state is the
  initial one but for the client, with status \<^verbatim>\<open>'Ready'\<close>, nothing connected, no
  microphone stream, both audio contexts released, and with no error.
\<close>

theorem microphone_denied_scenario:
  "hookState (run [Start startOk [] General EnUS None, OnOpen 0 micDenied] world0)
     = initial\<lparr>aiRef := Some ''key''\<rparr>
   \<and> error (hookState (run [Start startOk [] General EnUS None, OnOpen 0 micDenied] world0)) = None
   \<and> status (hookState (run [Start startOk [] General EnUS None, OnOpen 0 micDenied] world0)) = ''Ready''
   \<and> trace (run [Start startOk [] General EnUS None, OnOpen 0 micDenied] world0)
     = [SessionConnect 0 (systemInstruction [] General EnUS), SessionClose 0, ContextClose OutputCtx]"
  by (simp add: world0_def initial_def startOk_def micDenied_def noRejections_def start_def
        onopen_def microphoneFailed_def deliver_def statusOf_def markSession_def stop_def
        stopAudioPlayback_def closeContext_def catchConsoleError_def)

section \<open>Every message has parts\<close>

text \<open>
  Claim C4. In every state that the hook can reach, by calls and callbacks in any order
  and with any answers of its environment, every message of the message list has a
  non-empty sequence of parts. A message is in the list from the moment it is appended,
  so no code path appends a message without parts.
\<close>

theorem appended_parts_non_empty:
  "\<forall>m \<in> set (messages (hookState (run evs world0))). parts m \<noteq> []"
  using run_parts [of evs] by (simp add: partsNonEmpty_def list_all_iff)

theorem appended_parts_non_empty_witness:
  "messages (hookState (run failedImage world0))
     = [handoffMessage 1, toolErrorMessage 1 ''quota exceeded'']
   \<and> parts (handoffMessage 1) \<noteq> [] \<and> parts (toolErrorMessage 1 ''quota exceeded'') \<noteq> []"
  using appended_parts_non_empty [of failedImage] run_openSession sessions_openSession
  by (simp add: failedImage_def run_append statusOf_def imageOf_def hookState_deliver
        image_call_fails)



end
